theory Spec2Isabelle
  imports Complex_Main "HOL-Library.Product_Lexorder"
begin

section \<open>Conventions of the embedding\<close>

text \<open>
  The theory embeds the correction engine of \<^verbatim>\<open>pymatgen/analysis/defects/corrections.py\<close>
  and the orchestrator of \<^verbatim>\<open>pymatgen/analysis/defects/compatibility.py\<close>.

  \<^item> Python floats are modelled as the reals of HOL: rounding error is outside the
    model. Where the source would divide by a zero that comes from its input, the model
    does not use HOL's total division: it stops with \<open>NonFinite\<close>, or, in the Freysoldt
    potential alignment and in the descriptive statistics, goes on as numpy does with a
    value of the type \<open>npfloat\<close>, which has the two infinities and not-a-number.
  \<^item> Every exception of the source is a value of the type \<open>error\<close>; a function that can
    raise returns \<open>error + 'a\<close> with \<open>Inl\<close> for the exception.
  \<^item> A Python dictionary whose set of keys is known becomes a record with optional
    fields; a dictionary whose keys matter as data becomes an association list or a map.
  \<^item> \<open>NonFinite\<close> stands for a Python \<^verbatim>\<open>ZeroDivisionError\<close> or \<^verbatim>\<open>OverflowError\<close>; in
    the lattice sums of the Kumagai correction, in the electrostatic energies and in
    the relaxation analysis it also stands for a numpy result that is infinite or not a
    number, where the source yields no finite number.
  \<^item> Functions and constants of modules that are not part of the sources
    (\<^verbatim>\<open>pymatgen.analysis.defects.utils\<close>, \<^verbatim>\<open>pymatgen.core\<close>, numpy, scipy) are
    parameters of the model, collected in records, unless stated otherwise.
\<close>

datatype error =
    ValueError
  | IndexError
  | KeyError
  | TypeError
  | NameError
  | AttributeError
  | ImaginaryPartException
  | ConvergenceException
  | LinAlgError
  | NonFinite

definition bindE :: "error + 'a \<Rightarrow> ('a \<Rightarrow> error + 'b) \<Rightarrow> error + 'b" where
  "bindE m f = (case m of Inl e \<Rightarrow> Inl e | Inr x \<Rightarrow> f x)"

definition nth_or_raise :: "'a list \<Rightarrow> nat \<Rightarrow> error + 'a" where
  "nth_or_raise xs i = (if i < length xs then Inr (xs ! i) else Inl IndexError)"

section \<open>Floating-point values of numpy\<close>

text \<open>
  A float of numpy: a real number, one of the two infinities, or not-a-number. The
  operations are those of IEEE 754 without rounding and without the sign of zero: a zero
  divisor counts as the positive zero.
\<close>

datatype npfloat = is_Fin: Fin (fin_value: real) | PInf | NInf | NaN

fun fl_neg :: "npfloat \<Rightarrow> npfloat" where
  "fl_neg (Fin x) = Fin (- x)"
| "fl_neg PInf = NInf"
| "fl_neg NInf = PInf"
| "fl_neg NaN = NaN"

fun fl_abs :: "npfloat \<Rightarrow> npfloat" where
  "fl_abs (Fin x) = Fin \<bar>x\<bar>"
| "fl_abs PInf = PInf"
| "fl_abs NInf = PInf"
| "fl_abs NaN = NaN"

fun fl_add :: "npfloat \<Rightarrow> npfloat \<Rightarrow> npfloat" where
  "fl_add (Fin x) (Fin y) = Fin (x + y)"
| "fl_add (Fin x) PInf = PInf"
| "fl_add (Fin x) NInf = NInf"
| "fl_add (Fin x) NaN = NaN"
| "fl_add PInf (Fin y) = PInf"
| "fl_add PInf PInf = PInf"
| "fl_add PInf NInf = NaN"
| "fl_add PInf NaN = NaN"
| "fl_add NInf (Fin y) = NInf"
| "fl_add NInf PInf = NaN"
| "fl_add NInf NInf = NInf"
| "fl_add NInf NaN = NaN"
| "fl_add NaN y = NaN"

definition fl_sub :: "npfloat \<Rightarrow> npfloat \<Rightarrow> npfloat" where
  "fl_sub x y = fl_add x (fl_neg y)"

text \<open>The product of an infinity with a real number: the infinity by the sign, not-a-number for zero.\<close>

definition fl_scale_inf :: "npfloat \<Rightarrow> real \<Rightarrow> npfloat" where
  "fl_scale_inf i x = (if 0 < x then i else if x < 0 then fl_neg i else NaN)"

fun fl_mul :: "npfloat \<Rightarrow> npfloat \<Rightarrow> npfloat" where
  "fl_mul (Fin x) (Fin y) = Fin (x * y)"
| "fl_mul (Fin x) PInf = fl_scale_inf PInf x"
| "fl_mul (Fin x) NInf = fl_scale_inf NInf x"
| "fl_mul (Fin x) NaN = NaN"
| "fl_mul PInf (Fin y) = fl_scale_inf PInf y"
| "fl_mul PInf PInf = PInf"
| "fl_mul PInf NInf = NInf"
| "fl_mul PInf NaN = NaN"
| "fl_mul NInf (Fin y) = fl_scale_inf NInf y"
| "fl_mul NInf PInf = NInf"
| "fl_mul NInf NInf = PInf"
| "fl_mul NInf NaN = NaN"
| "fl_mul NaN y = NaN"

fun fl_div :: "npfloat \<Rightarrow> npfloat \<Rightarrow> npfloat" where
  "fl_div (Fin x) (Fin y) =
     (if y \<noteq> 0 then Fin (x / y) else if 0 < x then PInf else if x < 0 then NInf else NaN)"
| "fl_div (Fin x) PInf = Fin 0"
| "fl_div (Fin x) NInf = Fin 0"
| "fl_div (Fin x) NaN = NaN"
| "fl_div PInf (Fin y) = (if 0 \<le> y then PInf else NInf)"
| "fl_div PInf PInf = NaN"
| "fl_div PInf NInf = NaN"
| "fl_div PInf NaN = NaN"
| "fl_div NInf (Fin y) = (if 0 \<le> y then NInf else PInf)"
| "fl_div NInf PInf = NaN"
| "fl_div NInf NInf = NaN"
| "fl_div NInf NaN = NaN"
| "fl_div NaN y = NaN"

text \<open>The comparisons \<^verbatim>\<open><\<close> and \<^verbatim>\<open><=\<close>: false as soon as one side is not-a-number.\<close>

fun fl_less :: "npfloat \<Rightarrow> npfloat \<Rightarrow> bool" where
  "fl_less (Fin x) (Fin y) = (x < y)"
| "fl_less (Fin x) PInf = True"
| "fl_less (Fin x) NInf = False"
| "fl_less (Fin x) NaN = False"
| "fl_less PInf y = False"
| "fl_less NInf (Fin y) = True"
| "fl_less NInf PInf = True"
| "fl_less NInf NInf = False"
| "fl_less NInf NaN = False"
| "fl_less NaN y = False"

fun fl_le :: "npfloat \<Rightarrow> npfloat \<Rightarrow> bool" where
  "fl_le (Fin x) (Fin y) = (x \<le> y)"
| "fl_le (Fin x) PInf = True"
| "fl_le (Fin x) NInf = False"
| "fl_le (Fin x) NaN = False"
| "fl_le PInf (Fin y) = False"
| "fl_le PInf PInf = True"
| "fl_le PInf NInf = False"
| "fl_le PInf NaN = False"
| "fl_le NInf (Fin y) = True"
| "fl_le NInf PInf = True"
| "fl_le NInf NInf = True"
| "fl_le NInf NaN = False"
| "fl_le NaN y = False"

text \<open>
  \<^verbatim>\<open>np.max\<close> and \<^verbatim>\<open>np.min\<close> of a non-empty array: not-a-number as soon as one entry is
  not-a-number. The caller deals with the empty array, on which numpy raises.
\<close>

definition np_max :: "npfloat list \<Rightarrow> npfloat" where
  "np_max xs =
     (if NaN \<in> set xs then NaN
      else fold (\<lambda>x m. if fl_less m x then x else m) (tl xs) (hd xs))"

definition np_min :: "npfloat list \<Rightarrow> npfloat" where
  "np_min xs =
     (if NaN \<in> set xs then NaN
      else fold (\<lambda>x m. if fl_less x m then x else m) (tl xs) (hd xs))"

definition np_sum :: "npfloat list \<Rightarrow> npfloat" where
  "np_sum xs = fold (\<lambda>x acc. fl_add acc x) xs (Fin 0)"

text \<open>
  \<^verbatim>\<open>np.mean\<close>: the sum over the number of entries. On the empty array numpy warns and
  returns not-a-number, the quotient of zero by zero.
\<close>

definition np_mean :: "npfloat list \<Rightarrow> npfloat" where
  "np_mean xs = fl_div (np_sum xs) (Fin (real (length xs)))"

text \<open>
  \<^verbatim>\<open>np.var(a, ddof=1)\<close>: the sum of the squared deviations from the mean over the
  number of entries less one, a quotient by zero for a single entry.
\<close>

definition np_var1 :: "npfloat list \<Rightarrow> npfloat" where
  "np_var1 xs =
     (let m = np_mean xs in
      fl_div (np_sum (map (\<lambda>x. fl_mul (fl_sub x m) (fl_sub x m)) xs))
        (Fin (real (length xs - 1))))"

text \<open>
  The division of a complex array by a real scalar, entry by entry, as numpy's loop for
  complex numbers computes it: with the ratio \<open>0 / d\<close> of the imaginary to the real part
  of the divisor and the scale \<open>1 / d\<close>; for the divisor zero both parts are divided by
  zero.
\<close>

definition np_cdiv_real :: "npfloat \<times> npfloat \<Rightarrow> real \<Rightarrow> npfloat \<times> npfloat" where
  "np_cdiv_real c d =
     (if d = 0 then (fl_div (fst c) (Fin 0), fl_div (snd c) (Fin 0))
      else (fl_mul (fl_add (fst c) (fl_mul (snd c) (Fin 0))) (Fin (1 / d)),
            fl_mul (fl_sub (snd c) (fl_mul (fst c) (Fin 0))) (Fin (1 / d))))"

section \<open>BandFillingCorrection\<close>

text \<open>
  The eigenvalue dictionary maps a spin channel to a list over k-points of lists of
  (energy, occupation) pairs. It is an association list in insertion order, since the
  source reads \<^verbatim>\<open>list(eigenvalues.values())[0]\<close>.
\<close>

type_synonym kptset = "(real \<times> real) list"
type_synonym 'k eigenvalues = "('k \<times> kptset list) list"

record bandfilling_metadata =
  bf_num_hole_vbm :: real
  bf_num_elec_cbm :: real
  bf_potalign :: real

text \<open>\<^verbatim>\<open>core_occupation_value = list(eigenvalues.values())[0][0][0][1]\<close>\<close>

definition core_occupation_value :: "'k eigenvalues \<Rightarrow> error + real" where
  "core_occupation_value eigenvalues =
     bindE (nth_or_raise (map snd eigenvalues) 0) (\<lambda>spinset.
     bindE (nth_or_raise spinset 0) (\<lambda>kptset.
     bindE (nth_or_raise kptset 0) (\<lambda>state. Inr (snd state))))"

text \<open>The spin multiplicity factor of lines 785 to 791.\<close>

definition spinfctr :: "'k eigenvalues \<Rightarrow> real \<Rightarrow> error + real" where
  "spinfctr eigenvalues core =
     (if length eigenvalues = 1 then Inr (if core = 1 then 2 else 1)
      else if length eigenvalues = 2 then Inr 1
      else Inl ValueError)"

text \<open>
  One pass of the innermost loop body: the accumulator is
  (\<open>bf_corr\<close>, \<open>num_hole_vbm\<close>, \<open>num_elec_cbm\<close>).
\<close>

fun bandfill_state ::
  "real \<Rightarrow> real \<Rightarrow> real \<Rightarrow> real \<Rightarrow> real \<Rightarrow> real \<Rightarrow> real \<times> real \<Rightarrow>
   real \<times> real \<times> real \<Rightarrow> real \<times> real \<times> real" where
  "bandfill_state resolution fctr core shifted_cbm shifted_vbm weight (eig, occu) (bf, holes, elecs) =
     (if occu \<noteq> 0 \<and> eig > shifted_cbm - resolution then
        (bf + weight * fctr * occu * (eig - shifted_cbm), holes, elecs + weight * fctr * occu)
      else if occu \<noteq> core \<and> eig \<le> shifted_vbm + resolution then
        (bf + weight * fctr * (core - occu) * (shifted_vbm - eig),
         holes + weight * fctr * (core - occu), elecs)
      else (bf, holes, elecs))"

definition bandfill_kptset ::
  "real \<Rightarrow> real \<Rightarrow> real \<Rightarrow> real \<Rightarrow> real \<Rightarrow> kptset \<times> real \<Rightarrow>
   real \<times> real \<times> real \<Rightarrow> real \<times> real \<times> real" where
  "bandfill_kptset resolution fctr core shifted_cbm shifted_vbm kw acc =
     fold (bandfill_state resolution fctr core shifted_cbm shifted_vbm (snd kw)) (fst kw) acc"

definition bandfill_spinset ::
  "real \<Rightarrow> real \<Rightarrow> real \<Rightarrow> real \<Rightarrow> real \<Rightarrow> real list \<Rightarrow> kptset list \<Rightarrow>
   real \<times> real \<times> real \<Rightarrow> real \<times> real \<times> real" where
  "bandfill_spinset resolution fctr core shifted_cbm shifted_vbm kpoint_weights spinset acc =
     fold (bandfill_kptset resolution fctr core shifted_cbm shifted_vbm)
       (zip spinset kpoint_weights) acc"

text \<open>
  The three nested loops of lines 797 to 809 for a given spin factor and core occupation,
  with the final sign change.
\<close>

definition bandfill_accumulate ::
  "real \<Rightarrow> real \<Rightarrow> real \<Rightarrow> 'k eigenvalues \<Rightarrow> real list \<Rightarrow> real \<Rightarrow> real \<Rightarrow> real \<Rightarrow>
   real \<times> bandfilling_metadata" where
  "bandfill_accumulate resolution fctr core eigenvalues kpoint_weights potalign vbm cbm =
     (let shifted_cbm = potalign + cbm;
          shifted_vbm = potalign + vbm;
          (bf, holes, elecs) =
            fold (bandfill_spinset resolution fctr core shifted_cbm shifted_vbm kpoint_weights)
              (map snd eigenvalues) (0, 0, 0)
      in (bf * (- 1),
          \<lparr>bf_num_hole_vbm = holes, bf_num_elec_cbm = elecs, bf_potalign = potalign\<rparr>))"

definition perform_bandfill_corr ::
  "real \<Rightarrow> 'k eigenvalues \<Rightarrow> real list \<Rightarrow> real \<Rightarrow> real \<Rightarrow> real \<Rightarrow>
   error + (real \<times> bandfilling_metadata)" where
  "perform_bandfill_corr resolution eigenvalues kpoint_weights potalign vbm cbm =
     bindE (core_occupation_value eigenvalues) (\<lambda>core.
     bindE (spinfctr eigenvalues core) (\<lambda>fctr.
       Inr (bandfill_accumulate resolution fctr core eigenvalues kpoint_weights potalign vbm cbm)))"

text \<open>
  The occupation a state has in the ideal host: a state at or below the shifted valence
  band edge (within the resolution) carries the core occupation, a state above the
  shifted conduction band edge (within the resolution) is empty. States inside the gap
  are not constrained; the correction never reads them.
\<close>

definition host_occupation :: "real \<Rightarrow> real \<Rightarrow> real \<Rightarrow> real \<Rightarrow> real \<times> real \<Rightarrow> bool" where
  "host_occupation resolution core shifted_cbm shifted_vbm st =
     ((fst st > shifted_cbm - resolution \<longrightarrow> snd st = 0) \<and>
      (fst st \<le> shifted_vbm + resolution \<longrightarrow> snd st = core))"

definition ideal_spectrum ::
  "real \<Rightarrow> real \<Rightarrow> 'k eigenvalues \<Rightarrow> real \<Rightarrow> real \<Rightarrow> real \<Rightarrow> bool" where
  "ideal_spectrum resolution core eigenvalues potalign vbm cbm =
     (\<forall>spinset \<in> set (map snd eigenvalues). \<forall>kptset \<in> set spinset. \<forall>st \<in> set kptset.
        host_occupation resolution core (potalign + cbm) (potalign + vbm) st)"

section \<open>Vectors and matrices\<close>

type_synonym vec3 = "real \<times> real \<times> real"
type_synonym mat3 = "vec3 \<times> vec3 \<times> vec3"

fun dot3 :: "vec3 \<Rightarrow> vec3 \<Rightarrow> real" where
  "dot3 (a1, a2, a3) (b1, b2, b3) = a1 * b1 + a2 * b2 + a3 * b3"

fun cross3 :: "vec3 \<Rightarrow> vec3 \<Rightarrow> vec3" where
  "cross3 (a1, a2, a3) (b1, b2, b3) = (a2 * b3 - a3 * b2, a3 * b1 - a1 * b3, a1 * b2 - a2 * b1)"

fun add3 :: "vec3 \<Rightarrow> vec3 \<Rightarrow> vec3" where
  "add3 (a1, a2, a3) (b1, b2, b3) = (a1 + b1, a2 + b2, a3 + b3)"

fun sub3 :: "vec3 \<Rightarrow> vec3 \<Rightarrow> vec3" where
  "sub3 (a1, a2, a3) (b1, b2, b3) = (a1 - b1, a2 - b2, a3 - b3)"

fun scale3 :: "real \<Rightarrow> vec3 \<Rightarrow> vec3" where
  "scale3 c (a1, a2, a3) = (c * a1, c * a2, c * a3)"

definition norm3 :: "vec3 \<Rightarrow> real" where
  "norm3 v = sqrt (dot3 v v)"

fun vec3_nth :: "vec3 \<Rightarrow> nat \<Rightarrow> error + real" where
  "vec3_nth (a1, a2, a3) i =
     (if i = 0 then Inr a1 else if i = 1 then Inr a2 else if i = 2 then Inr a3
      else Inl IndexError)"

text \<open>\<^verbatim>\<open>np.dot(m, v)\<close> for a matrix given by its rows.\<close>

fun matvec3 :: "mat3 \<Rightarrow> vec3 \<Rightarrow> vec3" where
  "matvec3 (r1, r2, r3) v = (dot3 r1 v, dot3 r2 v, dot3 r3 v)"

fun det3 :: "mat3 \<Rightarrow> real" where
  "det3 (r1, r2, r3) = dot3 r1 (cross3 r2 r3)"

text \<open>\<^verbatim>\<open>np.linalg.inv\<close>: the adjugate over the determinant; a singular matrix raises.\<close>

fun inv3 :: "mat3 \<Rightarrow> error + mat3" where
  "inv3 (r1, r2, r3) =
     (let d = det3 (r1, r2, r3) in
      if d = 0 then Inl LinAlgError
      else
        (case (cross3 r2 r3, cross3 r3 r1, cross3 r1 r2) of
           ((c11, c12, c13), (c21, c22, c23), (c31, c32, c33)) \<Rightarrow>
             Inr ((c11 / d, c21 / d, c31 / d),
                  (c12 / d, c22 / d, c32 / d),
                  (c13 / d, c23 / d, c33 / d))))"

text \<open>The mean of the points of one facet (\<^verbatim>\<open>np.mean(np.array(facet), axis=0)\<close>).\<close>

definition mean3 :: "vec3 list \<Rightarrow> error + vec3" where
  "mean3 ps =
     (if ps = [] then Inl NonFinite
      else Inr (scale3 (1 / real (length ps)) (fold add3 ps (0, 0, 0))))"

text \<open>Running a fallible function over a list, stopping at the first exception.\<close>

fun mapE :: "('a \<Rightarrow> error + 'b) \<Rightarrow> 'a list \<Rightarrow> error + 'b list" where
  "mapE f [] = Inr []"
| "mapE f (x # xs) = bindE (f x) (\<lambda>y. bindE (mapE f xs) (\<lambda>ys. Inr (y # ys)))"

section \<open>External collaborators\<close>

text \<open>
  \<^verbatim>\<open>scipy.stats.describe(a)._asdict()\<close>, without the entries \<^verbatim>\<open>skewness\<close> and
  \<^verbatim>\<open>kurtosis\<close>, which none of the embedded functions reads. scipy raises
  \<^verbatim>\<open>ValueError\<close> on an empty sample ("The input must not be empty.") and computes the
  other entries with \<^verbatim>\<open>np.min\<close>, \<^verbatim>\<open>np.max\<close>, \<^verbatim>\<open>np.mean\<close> and \<^verbatim>\<open>np.var\<close> with one
  degree of freedom less.
\<close>

record describe_result =
  nobs :: nat
  minmax :: "npfloat \<times> npfloat"
  mean :: npfloat
  variance :: npfloat

definition describe :: "npfloat list \<Rightarrow> error + describe_result" where
  "describe a =
     (if a = [] then Inl ValueError
      else Inr \<lparr>nobs = length a, minmax = (np_min a, np_max a), mean = np_mean a,
                variance = np_var1 a\<rparr>)"

text \<open>
  What the corrections read of a \<^verbatim>\<open>Lattice\<close> of \<^verbatim>\<open>pymatgen.core\<close>: the rows of
  its matrix, the lengths \<^verbatim>\<open>abc\<close>, the lengths of the reciprocal lattice, the volume,
  the facets of the Wigner-Seitz cell and the conversion to cartesian coordinates.
\<close>

record lattice =
  matrix :: mat3
  abc :: vec3
  reciprocal_abc :: vec3
  volume :: real
  wigner_seitz_cell :: "vec3 list list"
  get_cartesian_coords :: "vec3 \<Rightarrow> vec3"

text \<open>
  A periodic site is identified by its species label and fractional coordinates; a
  structure is its lattice, its sites in order, and the periodic-image distance
  \<^verbatim>\<open>site.distance_and_image_from_frac_coords(fcoords)\<close>.
\<close>

record site =
  species :: nat
  frac_coords :: vec3

record py_structure =
  struct_lattice :: lattice
  sites :: "site list"
  distance_and_image_from_frac_coords :: "site \<Rightarrow> vec3 \<Rightarrow> real \<times> vec3"

text \<open>\<^verbatim>\<open>QModel\<close> of the utilities: the model charge in reciprocal space.\<close>

record qmodel =
  rho_rec :: "real \<Rightarrow> real"
  rho_rec_limit0 :: real

text \<open>Constants and functions of \<^verbatim>\<open>pymatgen.analysis.defects.utils\<close>.\<close>

record utils =
  ang_to_bohr :: real
  hart_to_ev :: real
  kumagai_to_V :: real
  eV_to_k :: "real \<Rightarrow> real"
  generate_reciprocal_vectors_squared :: "vec3 \<Rightarrow> vec3 \<Rightarrow> vec3 \<Rightarrow> real \<Rightarrow> real list"
  tune_for_gamma :: "lattice \<Rightarrow> mat3 \<Rightarrow> real"
  generate_R_and_G_vecs ::
    "real \<Rightarrow> nat list \<Rightarrow> lattice \<Rightarrow> mat3 \<Rightarrow>
     vec3 list list \<times> real list \<times> vec3 list list \<times> real list"

text \<open>
  Numerical routines of scipy and numpy: the quadrature (the first component of the
  result of \<^verbatim>\<open>scipy.integrate.quad\<close>), the complementary error function, and what
  \<^verbatim>\<open>np.fft.fft\<close> returns for an array with an entry that is infinite or not-a-number,
  as pairs of real and imaginary part. Which components of such a transform are
  infinite and which are not-a-number depends on the order in which the library
  combines the entries, so it is not fixed here.
\<close>

record numerics =
  quad :: "(real \<Rightarrow> real) \<Rightarrow> real \<Rightarrow> real \<Rightarrow> real"
  erfc :: "real \<Rightarrow> real"
  fft_nonfinite :: "npfloat list \<Rightarrow> (npfloat \<times> npfloat) list"

fun foldE :: "('a \<Rightarrow> 'b \<Rightarrow> error + 'b) \<Rightarrow> 'a list \<Rightarrow> 'b \<Rightarrow> error + 'b" where
  "foldE f [] acc = Inr acc"
| "foldE f (x # xs) acc = bindE (f x acc) (foldE f xs)"

section \<open>The defect entry and its parameter store\<close>

text \<open>Per-site record of the Kumagai potential alignment (\<^verbatim>\<open>pot_dict\<close>).\<close>

record pot_site =
  site_Vpc :: real
  site_Vqb :: real
  site_dist_to_defect :: real

text \<open>
  \<^verbatim>\<open>KumagaiCorrection.metadata\<close> once \<^verbatim>\<open>get_correction\<close> has run, which is what the
  entry keeps under \<^verbatim>\<open>kumagai_meta\<close>; the last two keys are added by the orchestrator.
\<close>

record kumagai_meta =
  kumagai_gamma :: real
  kumagai_sampling_radius :: real
  kumagai_potalign :: real
  kumagai_stats :: describe_result
  kumagai_number_sampled :: nat
  kumagai_pot_plot_data :: "nat \<rightharpoonup> pot_site"
  kumagai_electrostatic :: "real option"
  kumagai_potential_alignment_correction :: "real option"

text \<open>Per-axis plot data and uncertainty data of the Freysoldt potential alignment.\<close>

record freysoldt_plot =
  Vr :: "npfloat list"
  plot_x :: "real list"
  dft_diff :: "real list"
  final_shift :: "npfloat list"
  check :: "int \<times> int"

record freysoldt_uncertainty =
  stats :: describe_result
  potcorr :: npfloat

record freysoldt_meta =
  pot_plot_data :: "nat \<rightharpoonup> freysoldt_plot"
  pot_corr_uncertainty_md :: "nat \<rightharpoonup> freysoldt_uncertainty"
  freysoldt_electrostatic :: "real option"
  freysoldt_potential_alignment_correction :: "real option"

text \<open>The metadata the delocalization checks record, one constructor per check.\<close>

record plnr_avg_axis_meta =
  frey_variance_compatible :: bool
  frey_variance :: npfloat
  plnr_avg_var_tol_used :: real
  frey_minmax_compatible :: bool
  frey_minmax_window :: npfloat
  plnr_avg_minmax_tol_used :: real

record atomic_site_meta =
  kumagai_variance_compatible :: bool
  kumagai_variance :: npfloat
  atomic_site_var_tol_used :: real
  kumagai_minmax_compatible :: bool
  kumagai_minmax_window :: npfloat
  atomic_site_minmax_tol_used :: real

record structure_relax_meta =
  structure_tot_relax_compatible :: bool
  tot_relax_outside_wsrad :: real
  tot_relax_tol_used :: real
  structure_perc_relax_compatible :: bool
  perc_relax_outside_wsrad :: real
  perc_relax_tol_used :: real
  full_structure_relax_data :: "(real \<times> real \<times> nat \<times> real) list"
  defect_index :: "nat option"

record defectsite_relax_meta =
  relax_amount :: "real option"
  defect_tot_relax_tol_used :: real

datatype check_metadata =
    PlnrAvgMeta "nat \<rightharpoonup> plnr_avg_axis_meta"
  | AtomicSiteMeta atomic_site_meta
  | StructureRelaxMeta structure_relax_meta
  | DefectSiteRelaxMeta defectsite_relax_meta

record deloc_check =
  check_is_compatible :: bool
  check_metadata :: check_metadata

record bandfilling_meta =
  bandfilling_correction :: real

record bandshift_meta =
  vbm_shift_correction :: real
  hole_vbm_shift_correction :: real
  elec_cbm_shift_correction :: real

text \<open>
  \<^verbatim>\<open>DefectEntry.parameters\<close>: one optional field per key that the embedded functions
  read or write; \<open>None\<close> is an absent key.
\<close>

record parameters =
  axis_grid :: "real list list option"
  bulk_planar_averages :: "real list list option"
  defect_planar_averages :: "real list list option"
  initial_defect_structure :: "py_structure option"
  defect_frac_sc_coords :: "vec3 option"
  bulk_atomic_site_averages :: "real list option"
  defect_atomic_site_averages :: "real list option"
  site_matching_indices :: "(nat \<times> nat) list option"
  potalign :: "npfloat option"
  freysoldt_meta :: "freysoldt_meta option"
  kumagai_meta :: "kumagai_meta option"
  num_hole_vbm :: "real option"
  num_elec_cbm :: "real option"
  bandfilling_meta :: "bandfilling_meta option"
  bandshift_meta :: "bandshift_meta option"
  hybrid_vbm :: "real option"
  hybrid_cbm :: "real option"
  vbm :: "real option"
  cbm :: "real option"
  phasediagram_meta :: "(real \<times> real) option"
  delocalization_meta :: "(string \<rightharpoonup> deloc_check) option"
  final_defect_structure :: "py_structure option"
  final_structure :: "py_structure option"
  is_compatible :: "bool option"

text \<open>
  What the structural relaxation check obtains from collaborators that are not part of
  the sources: the initial defect structure (\<^verbatim>\<open>defect.generate_defect_structure\<close>), the
  candidate defect sites sorted by distance (\<^verbatim>\<open>get_sites_in_sphere\<close> on the symmetrized
  structure, each with its index) and the matrix of periodic distances between final
  and initial sites (\<^verbatim>\<open>lattice.get_all_distance\<close>).
\<close>

record relaxation_geometry =
  generated_defect_structure :: py_structure
  poss_deflist :: "nat list"
  distmatrix :: "nat \<Rightarrow> nat \<Rightarrow> real"

text \<open>
  The entry: \<^verbatim>\<open>entry.charge\<close> is the property that returns \<^verbatim>\<open>entry.defect.charge\<close>, so
  both are the field \<open>charge\<close>.
\<close>

record defect_entry =
  charge :: int
  defect_is_vacancy :: bool
  relaxation :: relaxation_geometry
  parameters :: parameters
  correction :: "string \<rightharpoonup> real"

definition lookup_param :: "'a option \<Rightarrow> error + 'a" where
  "lookup_param v = (case v of None \<Rightarrow> Inl KeyError | Some x \<Rightarrow> Inr x)"

section \<open>KumagaiCorrection\<close>

datatype dielectric_arg = DielectricScalar real | DielectricTensor mat3

record kumagai_correction =
  kumagai_dielectric :: mat3
  init_gamma :: "real option"
  init_sampling_radius :: "real option"

text \<open>\<^verbatim>\<open>__init__\<close>: a scalar becomes the scalar times the identity.\<close>

definition KumagaiCorrection_init ::
  "dielectric_arg \<Rightarrow> real option \<Rightarrow> real option \<Rightarrow> kumagai_correction" where
  "KumagaiCorrection_init dielectric_tensor sampling_radius gamma =
     \<lparr>kumagai_dielectric =
        (case dielectric_tensor of
           DielectricScalar c \<Rightarrow> ((c, 0, 0), (0, c, 0), (0, 0, c))
         | DielectricTensor m \<Rightarrow> m),
      init_gamma = gamma,
      init_sampling_radius = sampling_radius\<rparr>"

definition get_self_interaction :: "mat3 \<Rightarrow> real \<Rightarrow> error + real" where
  "get_self_interaction dielectric gamma =
     (let determ = det3 dielectric in
      if determ \<le> 0 then Inl NonFinite
      else Inr (- gamma / (2 * pi * sqrt (pi * determ))))"

definition get_potential_shift :: "real \<Rightarrow> real \<Rightarrow> error + real" where
  "get_potential_shift gamma vol =
     (if vol * gamma\<^sup>2 = 0 then Inl NonFinite else Inr (- (1 / 4) / (vol * gamma\<^sup>2)))"

text \<open>The body of the loop of \<^verbatim>\<open>get_real_summation\<close>.\<close>

definition real_summation_term ::
  "numerics \<Rightarrow> mat3 \<Rightarrow> real \<Rightarrow> vec3 \<Rightarrow> real \<Rightarrow> error + real" where
  "real_summation_term num invepsilon gamma r_vec real_part =
     (if norm3 r_vec > 1 / 10 ^ 8 then
        (let s = dot3 r_vec (matvec3 invepsilon r_vec) in
         if s \<le> 0 then Inl NonFinite
         else
           (let loc_res = sqrt s;
                nmr = erfc num (gamma * loc_res)
            in Inr (real_part + nmr / loc_res)))
      else Inr real_part)"

definition get_real_summation ::
  "numerics \<Rightarrow> mat3 \<Rightarrow> real \<Rightarrow> vec3 list \<Rightarrow> error + real" where
  "get_real_summation num dielectric gamma real_vectors =
     bindE (inv3 dielectric) (\<lambda>invepsilon.
       if det3 dielectric < 0 then Inl NonFinite
       else
         (let rd_epsilon = sqrt (det3 dielectric) in
          bindE (foldE (real_summation_term num invepsilon gamma) real_vectors 0) (\<lambda>real_part.
            Inr (real_part / (4 * pi * rd_epsilon)))))"

text \<open>The body of the loop of \<^verbatim>\<open>get_recip_summation\<close>.\<close>

definition recip_summation_term ::
  "mat3 \<Rightarrow> real \<Rightarrow> vec3 \<Rightarrow> vec3 \<Rightarrow> real \<Rightarrow> error + real" where
  "recip_summation_term dielectric gamma r g_vec recip_part =
     (let Gdotdiel = dot3 g_vec (matvec3 dielectric g_vec) in
      if Gdotdiel = 0 \<or> gamma = 0 then Inl NonFinite
      else
        (let summand = exp (- Gdotdiel / (4 * gamma\<^sup>2)) * cos (dot3 g_vec r) / Gdotdiel
         in Inr (recip_part + summand)))"

definition get_recip_summation ::
  "mat3 \<Rightarrow> real \<Rightarrow> vec3 list \<Rightarrow> real \<Rightarrow> vec3 \<Rightarrow> error + real" where
  "get_recip_summation dielectric gamma recip_vectors vol r =
     bindE (foldE (recip_summation_term dielectric gamma r) recip_vectors 0) (\<lambda>recip_part.
       if vol = 0 then Inl NonFinite else Inr (recip_part / vol))"

text \<open>\<^verbatim>\<open>defect_structure.index(site)\<close>: the first position of an equal site.\<close>

fun index_of :: "'a list \<Rightarrow> 'a \<Rightarrow> error + nat" where
  "index_of [] x = Inl ValueError"
| "index_of (y # ys) x = (if y = x then Inr 0 else bindE (index_of ys x) (\<lambda>i. Inr (Suc i)))"

text \<open>
  Steps (a) to (c) of the loop of \<^verbatim>\<open>perform_pot_corr\<close> for one site: the distance to the
  defect, the model potential \<^verbatim>\<open>Vpc\<close> at the site and the index of the site.
\<close>

definition site_model_potential ::
  "numerics \<Rightarrow> utils \<Rightarrow> mat3 \<Rightarrow> py_structure \<Rightarrow> vec3 \<Rightarrow> int \<Rightarrow>
   vec3 list \<Rightarrow> vec3 list \<Rightarrow> real \<Rightarrow> real \<Rightarrow> site \<Rightarrow> error + (real \<times> real \<times> nat)" where
  "site_model_potential num ut dielectric defect_structure defect_frac_coords q
       r_vecs g_vecs gamma potential_shift st =
     (case distance_and_image_from_frac_coords defect_structure st defect_frac_coords of
        (dist_image, jimage) \<Rightarrow>
          (let vec_defect_to_site =
                 get_cartesian_coords (struct_lattice defect_structure)
                   (sub3 (sub3 (frac_coords st) jimage) defect_frac_coords);
               dist_to_defect = norm3 vec_defect_to_site
           in
             if \<bar>dist_to_defect - dist_image\<bar> > 1 / 1000 then Inl ValueError
             else
               (let relative_real_vectors = map (\<lambda>r_vec. sub3 r_vec vec_defect_to_site) r_vecs in
                bindE (get_real_summation num dielectric gamma relative_real_vectors) (\<lambda>real_sum.
                bindE (get_recip_summation dielectric gamma g_vecs
                         (volume (struct_lattice defect_structure)) vec_defect_to_site) (\<lambda>recip_sum.
                  (let Vpc = (real_sum + recip_sum + potential_shift) * kumagai_to_V ut * of_int q in
                   bindE (index_of (sites defect_structure) st) (\<lambda>defect_struct_index.
                     Inr (dist_to_defect, Vpc, defect_struct_index))))))))"

text \<open>
  One pass of the loop over \<^verbatim>\<open>site_list\<close>; the accumulator is
  (\<^verbatim>\<open>pot_dict\<close>, \<^verbatim>\<open>for_correction\<close>).
\<close>

definition kumagai_site_step ::
  "numerics \<Rightarrow> utils \<Rightarrow> mat3 \<Rightarrow> py_structure \<Rightarrow> vec3 \<Rightarrow> real \<Rightarrow> int \<Rightarrow>
   vec3 list \<Rightarrow> vec3 list \<Rightarrow> real \<Rightarrow> real \<Rightarrow> site \<times> real \<Rightarrow>
   (nat \<rightharpoonup> pot_site) \<times> real list \<Rightarrow> error + ((nat \<rightharpoonup> pot_site) \<times> real list)" where
  "kumagai_site_step num ut dielectric defect_structure defect_frac_coords sampling_radius q
       r_vecs g_vecs gamma potential_shift sv acc =
     bindE (site_model_potential num ut dielectric defect_structure defect_frac_coords q
              r_vecs g_vecs gamma potential_shift (fst sv)) (\<lambda>(d, vpc, idx).
       (let pot_dict = (fst acc)(idx \<mapsto> \<lparr>site_Vpc = vpc, site_Vqb = snd sv, site_dist_to_defect = d\<rparr>) in
        if d > sampling_radius then Inr (pot_dict, snd acc @ [snd sv - vpc])
        else Inr (pot_dict, snd acc)))"

text \<open>Lines 561 to 566: the alignment constant of the sampled residuals.\<close>

definition kumagai_pot_alignment :: "real list \<Rightarrow> real" where
  "kumagai_pot_alignment for_correction =
     (if length for_correction \<noteq> 0 then sum_list for_correction / real (length for_correction)
      else 0)"

text \<open>
  \<^verbatim>\<open>KumagaiCorrection.perform_pot_corr\<close>. It returns the correction together with the
  metadata it has written: \<^verbatim>\<open>potalign\<close>, the statistics with the number of samples, and
  the per-site data.
\<close>

definition kumagai_perform_pot_corr ::
  "numerics \<Rightarrow> utils \<Rightarrow> mat3 \<Rightarrow> py_structure \<Rightarrow> vec3 \<Rightarrow> (site \<times> real) list \<Rightarrow> real \<Rightarrow> int \<Rightarrow>
   vec3 list \<Rightarrow> vec3 list \<Rightarrow> real \<Rightarrow>
   error + (real \<times> real \<times> describe_result \<times> nat \<times> (nat \<rightharpoonup> pot_site))" where
  "kumagai_perform_pot_corr num ut dielectric defect_structure defect_frac_coords site_list
       sampling_radius q r_vecs g_vecs gamma =
     bindE (get_potential_shift gamma (volume (struct_lattice defect_structure))) (\<lambda>potential_shift.
     bindE (foldE (kumagai_site_step num ut dielectric defect_structure defect_frac_coords
                     sampling_radius q r_vecs g_vecs gamma potential_shift)
              site_list (Map.empty, [])) (\<lambda>(pot_dict, for_correction).
       (let pot_alignment = kumagai_pot_alignment for_correction;
            pot_corr = - of_int q * pot_alignment
        in
          bindE (describe (map Fin for_correction)) (\<lambda>st.
            Inr (pot_corr, pot_alignment, st, length for_correction, pot_dict)))))"

text \<open>
  \<^verbatim>\<open>[(real_summation[ind] + recip_summation[ind] + pot_shift + si) for ind in range(2)]\<close>
\<close>

definition es_corr_pair :: "real list \<Rightarrow> real list \<Rightarrow> real \<Rightarrow> real \<Rightarrow> error + (real \<times> real)" where
  "es_corr_pair real_summation recip_summation pot_shift si =
     bindE (nth_or_raise real_summation 0) (\<lambda>re0.
     bindE (nth_or_raise recip_summation 0) (\<lambda>rc0.
     bindE (nth_or_raise real_summation 1) (\<lambda>re1.
     bindE (nth_or_raise recip_summation 1) (\<lambda>rc1.
       Inr (re0 + rc0 + pot_shift + si, re1 + rc1 + pot_shift + si)))))"

text \<open>
  Lines 411 to 429 of \<^verbatim>\<open>get_correction\<close>: the summation at the precision pair
  \<open>[25, 28]\<close>, the escalation to \<open>[30, 35]\<close> and the check after it. The result is
  \<^verbatim>\<open>es_corr[0]\<close> with the lattice vectors of the pair that was used last.
\<close>

definition kumagai_summation ::
  "utils \<Rightarrow> mat3 \<Rightarrow> lattice \<Rightarrow> real \<Rightarrow> error + (real \<times> vec3 list list \<times> vec3 list list)" where
  "kumagai_summation ut dielectric latt gamma =
     (case generate_R_and_G_vecs ut gamma [25, 28] latt dielectric of
        (g_vecs, recip_summation, r_vecs, real_summation) \<Rightarrow>
          bindE (get_potential_shift gamma (volume latt)) (\<lambda>pot_shift.
          bindE (get_self_interaction dielectric gamma) (\<lambda>si.
          bindE (es_corr_pair real_summation recip_summation pot_shift si) (\<lambda>(es0, es1).
            if \<bar>es0 - es1\<bar> > 1 / 10000 then
              (case generate_R_and_G_vecs ut gamma [30, 35] latt dielectric of
                 (g_vecs', recip_summation', r_vecs', real_summation') \<Rightarrow>
                   bindE (es_corr_pair real_summation' recip_summation' pot_shift si) (\<lambda>(es0', es1').
                     if \<bar>es0' - es1'\<bar> < 1 / 10000 then Inl ValueError
                     else Inr (es0', g_vecs', r_vecs')))
            else Inr (es0, g_vecs, r_vecs)))))"

text \<open>Line 431: the electrostatic correction from the converged sum.\<close>

definition kumagai_es_corr :: "utils \<Rightarrow> real \<Rightarrow> int \<Rightarrow> real" where
  "kumagai_es_corr ut es0 q = es0 * - ((of_int q)\<^sup>2) * kumagai_to_V ut / 2"

text \<open>Lines 434 to 440: the default sampling radius from the Wigner-Seitz cell.\<close>

definition wigner_seitz_radius :: "lattice \<Rightarrow> error + real" where
  "wigner_seitz_radius latt =
     bindE (mapE (\<lambda>facet. bindE (mean3 facet) (\<lambda>midpt. Inr (norm3 midpt)))
              (wigner_seitz_cell latt)) (\<lambda>dists.
       if dists = [] then Inl ValueError else Inr (Min (set dists)))"

text \<open>Lines 444 to 447: the site list from the matching indices.\<close>

definition kumagai_site_entry ::
  "py_structure \<Rightarrow> real list \<Rightarrow> real list \<Rightarrow> nat \<times> nat \<Rightarrow> error + (site \<times> real)" where
  "kumagai_site_entry defect_sc_structure bulk_averages defect_averages ix =
     bindE (nth_or_raise defect_averages (snd ix)) (\<lambda>dv.
     bindE (nth_or_raise bulk_averages (fst ix)) (\<lambda>bv.
     bindE (nth_or_raise (sites defect_sc_structure) (snd ix)) (\<lambda>st.
       Inr (st, - (dv - bv)))))"

record charge_correction =
  electrostatic :: real
  potential_alignment :: real

text \<open>
  \<^verbatim>\<open>KumagaiCorrection.get_correction\<close>: the returned dictionary (its two values) and
  the entry with \<^verbatim>\<open>kumagai_meta\<close> and \<^verbatim>\<open>potalign\<close> written.
\<close>

definition kumagai_get_correction ::
  "numerics \<Rightarrow> utils \<Rightarrow> kumagai_correction \<Rightarrow> defect_entry \<Rightarrow>
   error + (charge_correction \<times> defect_entry)" where
  "kumagai_get_correction num ut self entry =
     bindE (lookup_param (bulk_atomic_site_averages (parameters entry))) (\<lambda>bulk_averages.
     bindE (lookup_param (defect_atomic_site_averages (parameters entry))) (\<lambda>defect_averages.
     bindE (lookup_param (site_matching_indices (parameters entry))) (\<lambda>matching.
     bindE (lookup_param (initial_defect_structure (parameters entry))) (\<lambda>defect_sc_structure.
     bindE (lookup_param (defect_frac_sc_coords (parameters entry))) (\<lambda>defect_frac.
       (let latt = struct_lattice defect_sc_structure;
            q = charge entry;
            gamma = (case init_gamma self of
                       None \<Rightarrow> tune_for_gamma ut latt (kumagai_dielectric self)
                     | Some g \<Rightarrow> if g = 0 then tune_for_gamma ut latt (kumagai_dielectric self) else g)
        in
          bindE (kumagai_summation ut (kumagai_dielectric self) latt gamma) (\<lambda>(es0, g_vecs, r_vecs).
            (let es_corr = kumagai_es_corr ut es0 q in
             bindE (case init_sampling_radius self of
                      None \<Rightarrow> wigner_seitz_radius latt
                    | Some r \<Rightarrow> if r = 0 then wigner_seitz_radius latt else Inr r) (\<lambda>sampling_radius.
             bindE (mapE (kumagai_site_entry defect_sc_structure bulk_averages defect_averages)
                      matching) (\<lambda>site_list.
             bindE (nth_or_raise r_vecs 0) (\<lambda>r_vecs0.
             bindE (nth_or_raise g_vecs 0) (\<lambda>g_vecs0.
             bindE (kumagai_perform_pot_corr num ut (kumagai_dielectric self) defect_sc_structure
                      defect_frac site_list sampling_radius q r_vecs0 g_vecs0 gamma)
               (\<lambda>(pot_corr, pot_alignment, st, number_sampled, pot_dict).
                 Inr (\<lparr>electrostatic = es_corr, potential_alignment = pot_corr\<rparr>,
                      entry\<lparr>parameters := (parameters entry)
                        \<lparr>kumagai_meta := Some
                           \<lparr>kumagai_gamma = gamma,
                            kumagai_sampling_radius = sampling_radius,
                            kumagai_potalign = pot_alignment,
                            kumagai_stats = st,
                            kumagai_number_sampled = number_sampled,
                            kumagai_pot_plot_data = pot_dict,
                            kumagai_electrostatic = None,
                            kumagai_potential_alignment_correction = None\<rparr>,
                         potalign :=
                           Some (Fin (if q \<noteq> 0 then pot_corr / (- of_int q) else 0))\<rparr>\<rparr>))))))))))))))"

section \<open>Python and numpy primitives of the Freysoldt correction\<close>

text \<open>\<^verbatim>\<open>int(x)\<close> of a float: truncation towards zero.\<close>

definition py_int :: "real \<Rightarrow> int" where
  "py_int x = (if 0 \<le> x then \<lfloor>x\<rfloor> else \<lceil>x\<rceil>)"

text \<open>\<^verbatim>\<open>round(x, n)\<close> of a float: to \<open>n\<close> decimals, a tie to the even neighbour.\<close>

definition py_round :: "real \<Rightarrow> nat \<Rightarrow> real" where
  "py_round x n =
     (let y = x * 10 ^ n;
          f = \<lfloor>y\<rfloor>;
          r = (if y - of_int f < 1 / 2 then f
               else if y - of_int f > 1 / 2 then f + 1
               else if even f then f else f + 1)
      in of_int r / 10 ^ n)"

text \<open>Indexing with a possibly negative index, which counts from the end.\<close>

definition py_index :: "'a list \<Rightarrow> int \<Rightarrow> error + 'a" where
  "py_index xs i =
     (let j = (if i < 0 then int (length xs) + i else i) in
      if 0 \<le> j \<and> j < int (length xs) then Inr (xs ! nat j) else Inl IndexError)"

text \<open>\<^verbatim>\<open>np.roll(xs, k)\<close> for \<open>k \<ge> 0\<close>: the element at \<open>j\<close> moves to \<open>j + k\<close>, cyclically.\<close>

definition np_roll :: "'a list \<Rightarrow> nat \<Rightarrow> 'a list" where
  "np_roll xs k = (if xs = [] then [] else rotate (length xs - k mod length xs) xs)"

text \<open>
  Subtraction of one-dimensional arrays with numpy's broadcasting: equal lengths, or one
  of the two of length one; anything else raises.
\<close>

definition np_sub :: "real list \<Rightarrow> real list \<Rightarrow> error + real list" where
  "np_sub xs ys =
     (if length xs = length ys then Inr (map2 (-) xs ys)
      else if length xs = 1 then Inr (map (\<lambda>y. hd xs - y) ys)
      else if length ys = 1 then Inr (map (\<lambda>x. x - hd ys) xs)
      else Inl ValueError)"

text \<open>The same subtraction when the second array holds floats of numpy.\<close>

definition np_sub_fl :: "real list \<Rightarrow> npfloat list \<Rightarrow> error + npfloat list" where
  "np_sub_fl xs ys =
     (if length xs = length ys then Inr (map2 (\<lambda>x y. fl_sub (Fin x) y) xs ys)
      else if length xs = 1 then Inr (map (\<lambda>y. fl_sub (Fin (hd xs)) y) ys)
      else if length ys = 1 then Inr (map (\<lambda>x. fl_sub (Fin x) (hd ys)) xs)
      else Inl ValueError)"

text \<open>
  \<^verbatim>\<open>np.fft.fft\<close>: the discrete Fourier transform
  \<open>X\<^sub>k = \<Sum>\<^sub>j x\<^sub>j exp(- 2 \<pi> i k j / n)\<close>.
\<close>

definition dft :: "complex list \<Rightarrow> complex list" where
  "dft xs =
     map (\<lambda>k. \<Sum>j\<leftarrow>[0..<length xs]. xs ! j * cis (- 2 * pi * real k * real j / real (length xs)))
       [0..<length xs]"

text \<open>
  \<^verbatim>\<open>np.fft.fft\<close> of a real array of floats of numpy, as pairs of real and imaginary
  part: the transform above when every entry is a real number, and what the library
  returns otherwise.
\<close>

definition np_fft :: "numerics \<Rightarrow> npfloat list \<Rightarrow> (npfloat \<times> npfloat) list" where
  "np_fft num xs =
     (if list_all is_Fin xs
      then map (\<lambda>c. (Fin (Re c), Fin (Im c)))
             (dft (map (\<lambda>x. complex_of_real (fin_value x)) xs))
      else fft_nonfinite num xs)"

text \<open>
  \<^verbatim>\<open>np.roll(np.arange(-nx / 2, nx / 2, 1, dtype=int), int(nx / 2))\<close>. With an integer
  type \<^verbatim>\<open>arange\<close> starts at the truncated lower bound and counts up by one, over
  \<open>nx\<close> entries.
\<close>

definition arange_g :: "nat \<Rightarrow> int list" where
  "arange_g nx = np_roll (map (\<lambda>i. - int (nx div 2) + int i) [0..<nx]) (nx div 2)"

section \<open>Convergence of a cutoff-dependent quantity\<close>

text \<open>
  Modelled from the spec: \<^verbatim>\<open>converge\<close> of \<^verbatim>\<open>pymatgen.analysis.defects.utils\<close>, which is
  not among the sources. The spec: "repeatedly evaluates f at increasing
  resolution/cutoff until two successive evaluations differ by less than tolerance;
  fails (fatal) if the maximum cutoff is exhausted without convergence". The cutoff
  starts at the initial precision and grows by it each round; with an initial precision
  of zero the cutoff cannot grow and the model reports the failure. An exception of
  \<open>f\<close> ends the iteration.
\<close>

function converge_from ::
  "(real \<Rightarrow> error + real) \<Rightarrow> nat \<Rightarrow> real \<Rightarrow> nat \<Rightarrow> real \<Rightarrow> nat \<Rightarrow> error + real" where
  "converge_from f initial_precision tol max_cutoff g h =
     (if initial_precision = 0 \<or> max_cutoff < h then Inl ConvergenceException
      else
        (case f (real h) of
           Inl e \<Rightarrow> Inl e
         | Inr g2 \<Rightarrow>
             if \<bar>g - g2\<bar> < tol then Inr g2
             else converge_from f initial_precision tol max_cutoff g2 (h + initial_precision)))"
  by pat_completeness auto
termination
  by (relation "measure (\<lambda>(f, initial_precision, tol, max_cutoff, g, h). Suc max_cutoff - h)") auto

definition converge ::
  "(real \<Rightarrow> error + real) \<Rightarrow> nat \<Rightarrow> real \<Rightarrow> nat \<Rightarrow> error + real" where
  "converge f initial_precision tol max_cutoff =
     (case f (real initial_precision) of
        Inl e \<Rightarrow> Inl e
      | Inr g \<Rightarrow>
          converge_from f initial_precision tol max_cutoff g
            (initial_precision + initial_precision))"

section \<open>FreysoldtCorrection\<close>

datatype axis_arg = AxisNone | AxisInt nat | AxisList "nat list"

record freysoldt_correction =
  q_model :: qmodel
  energy_cutoff :: nat
  madetol :: real
  freysoldt_dielectric :: real
  self_axis :: axis_arg

text \<open>\<^verbatim>\<open>__init__\<close>: a tensor is reduced to the mean of its diagonal.\<close>

definition FreysoldtCorrection_init ::
  "dielectric_arg \<Rightarrow> qmodel \<Rightarrow> nat \<Rightarrow> real \<Rightarrow> axis_arg \<Rightarrow> freysoldt_correction" where
  "FreysoldtCorrection_init dielectric_const qm cutoff tol ax =
     \<lparr>q_model = qm, energy_cutoff = cutoff, madetol = tol,
      freysoldt_dielectric =
        (case dielectric_const of
           DielectricScalar c \<Rightarrow> c
         | DielectricTensor ((d11, _, _), (_, d22, _), (_, _, d33)) \<Rightarrow> (d11 + d22 + d33) / 3),
      self_axis = ax\<rparr>"

text \<open>
  The two local functions of \<^verbatim>\<open>perform_es_corr\<close>; \<^verbatim>\<open>round(np.pi, 6)\<close> is 3.141593.
  \<^verbatim>\<open>e_per\<close> divides by every squared reciprocal vector that the generator yields and by
  the volume.
\<close>

definition e_iso :: "numerics \<Rightarrow> utils \<Rightarrow> qmodel \<Rightarrow> real \<Rightarrow> int \<Rightarrow> real \<Rightarrow> real" where
  "e_iso num ut qm step q encut =
     (let gcut = eV_to_k ut encut in
      quad num (\<lambda>g. (rho_rec qm (g * g))\<^sup>2) step gcut * (of_int q)\<^sup>2 / pi)"

definition e_per ::
  "utils \<Rightarrow> qmodel \<Rightarrow> vec3 \<Rightarrow> vec3 \<Rightarrow> vec3 \<Rightarrow> real \<Rightarrow> int \<Rightarrow> real \<Rightarrow> error + real" where
  "e_per ut qm a1 a2 a3 vol q encut =
     (let g2s = generate_reciprocal_vectors_squared ut a1 a2 a3 encut in
      if 0 \<in> set g2s \<or> vol = 0 then Inl NonFinite
      else
        (let eper0 = fold (\<lambda>g2 eper. eper + (rho_rec qm g2)\<^sup>2 / g2) g2s 0;
             eper1 = eper0 * ((of_int q)\<^sup>2 * 2 * (3141593 / 1000000) / vol)
         in Inr (eper1 + (of_int q)\<^sup>2 * 4 * (3141593 / 1000000) * rho_rec_limit0 qm / vol)))"

text \<open>
  \<^verbatim>\<open>FreysoldtCorrection.perform_es_corr\<close>. \<^verbatim>\<open>lattice.get_cartesian_coords(1)\<close> is the
  product of the scalar 1 with the matrix of the lattice, so \<open>a1\<close>, \<open>a2\<close>, \<open>a3\<close> are the
  rows of the matrix in bohr.
\<close>

definition freysoldt_perform_es_corr ::
  "numerics \<Rightarrow> utils \<Rightarrow> freysoldt_correction \<Rightarrow> lattice \<Rightarrow> int \<Rightarrow> real \<Rightarrow> error + real" where
  "freysoldt_perform_es_corr num ut self latt q step =
     (case matrix latt of
        (r1, r2, r3) \<Rightarrow>
          (let a1 = scale3 (ang_to_bohr ut) r1;
               a2 = scale3 (ang_to_bohr ut) r2;
               a3 = scale3 (ang_to_bohr ut) r3;
               vol = dot3 a1 (cross3 a2 a3)
           in
             bindE (converge (\<lambda>encut. Inr (e_iso num ut (q_model self) step q encut)) 5
                      (madetol self) (energy_cutoff self)) (\<lambda>eiso.
             bindE (converge (e_per ut (q_model self) a1 a2 a3 vol q) 5 (madetol self)
                      (energy_cutoff self)) (\<lambda>eper.
               if freysoldt_dielectric self = 0 then Inl NonFinite
               else Inr (py_round ((eiso - eper) / freysoldt_dielectric self * hart_to_ev ut)
                           6)))))"

text \<open>
  Lines 217 to 222 of \<^verbatim>\<open>perform_pot_corr\<close>: the position of the defect along the axis,
  folded back into the cell.
\<close>

definition axbulkval_of :: "lattice \<Rightarrow> vec3 \<Rightarrow> nat \<Rightarrow> error + real" where
  "axbulkval_of latt defect_frac_position ax =
     bindE (vec3_nth defect_frac_position ax) (\<lambda>axfracval.
     bindE (vec3_nth (abc latt) ax) (\<lambda>len.
       (let v = axfracval * len in
        Inr (if v < 0 then v + len else if v > len then v - len else v))))"

text \<open>
  Lines 224 to 230: the loop leaves \<open>i\<close> at the first grid point beyond the defect, or at
  the last index; on an empty grid \<open>i\<close> is never bound.
\<close>

definition shift_to_origin ::
  "real \<Rightarrow> real list \<Rightarrow> real list \<Rightarrow> real list \<Rightarrow> error + (real list \<times> real list)" where
  "shift_to_origin axbulkval grid pureavg defavg =
     (if axbulkval \<noteq> 0 then
        (if grid = [] then Inl NameError
         else
           (let i = (case List.find (\<lambda>i. axbulkval < grid ! i) [0..<length grid] of
                       Some i \<Rightarrow> i | None \<Rightarrow> length grid - 1);
                rollind = length grid - i
            in Inr (np_roll pureavg rollind, np_roll defavg rollind)))
      else Inr (pureavg, defavg))"

text \<open>
  One entry of \<^verbatim>\<open>4 * np.pi / (self.dielectric * g2) * -q * self.q_model.rho_rec(g2)\<close>
  (line 243), for the entry \<open>x\<close> of \<^verbatim>\<open>g2\<close>. numpy divides by zero without raising:
  \<^verbatim>\<open>g2\<close> is a square, so its zero is the positive zero, the product with the
  dielectric constant has the sign of the dielectric constant, and the quotient is the
  infinity of that sign. Its product with the charge zero is not-a-number.
\<close>

definition freysoldt_v_G_entry :: "real \<Rightarrow> int \<Rightarrow> qmodel \<Rightarrow> real \<Rightarrow> npfloat" where
  "freysoldt_v_G_entry dielectric q qm x =
     fl_mul
       (fl_mul (if x = 0 then (if 0 < dielectric then PInf else NInf)
                else Fin (4 * pi / (dielectric * x)))
          (Fin (- of_int q)))
       (Fin (rho_rec qm x))"

text \<open>
  Lines 234 to 244: the model potential in reciprocal space. The first entry is computed
  with Python floats, where a dielectric constant of zero raises. On a grid with an odd
  number of points the rolled array \<^verbatim>\<open>g\<close> ends with the entry zero, which is part of
  \<^verbatim>\<open>g2\<close>.
\<close>

definition freysoldt_v_G ::
  "utils \<Rightarrow> freysoldt_correction \<Rightarrow> lattice \<Rightarrow> nat \<Rightarrow> int \<Rightarrow> nat \<Rightarrow> error + npfloat list" where
  "freysoldt_v_G ut self latt nx q ax =
     bindE (vec3_nth (reciprocal_abc latt) ax) (\<lambda>dg0.
       if ang_to_bohr ut = 0 then Inl NonFinite
       else
         (let dg = dg0 / ang_to_bohr ut in
          if freysoldt_dielectric self = 0 then Inl NonFinite
          else if nx = 0 then Inl IndexError
          else
            (let v_G0 = 4 * pi * - of_int q / freysoldt_dielectric self
                          * rho_rec_limit0 (q_model self);
                 g = map (\<lambda>n. of_int n * dg) (arange_g nx);
                 g2 = tl (map (\<lambda>x. x * x) g);
                 v_G = Fin v_G0
                         # map (freysoldt_v_G_entry (freysoldt_dielectric self) q (q_model self)) g2
             in Inr (if even nx then v_G[nx div 2 := Fin 0] else v_G))))"

text \<open>
  Lines 247 to 252: the Fourier transform of \<^verbatim>\<open>v_G\<close>, the check of its imaginary part
  \<^verbatim>\<open>abs(np.imag(v_R).max()) > self.madetol\<close>, which is false when the maximum is
  not-a-number, the division by the volume in bohr and the real part in electron volts.
  numpy refuses to transform an empty array.
\<close>

definition freysoldt_real_space ::
  "numerics \<Rightarrow> utils \<Rightarrow> freysoldt_correction \<Rightarrow> lattice \<Rightarrow> npfloat list \<Rightarrow>
   error + npfloat list" where
  "freysoldt_real_space num ut self latt v_G =
     (if v_G = [] then Inl ValueError
      else
        (let v_R = np_fft num v_G in
         if fl_less (Fin (madetol self)) (fl_abs (np_max (map snd v_R)))
         then Inl ImaginaryPartException
         else Inr (map (\<lambda>c. fl_mul (fst (np_cdiv_real c (volume latt * (ang_to_bohr ut) ^ 3)))
                                  (Fin (hart_to_ev ut))) v_R)))"

text \<open>
  Lines 254 to 284: the alignment constant from the real-space potential, the correction
  \<open>- q * C\<close> and the data recorded for the axis. The call of the logger at line 261
  reads \<^verbatim>\<open>axis_grid[mid - checkdis]\<close> and \<^verbatim>\<open>axis_grid[mid + checkdis]\<close> whatever the
  logging level.
\<close>

definition freysoldt_align ::
  "real list \<Rightarrow> real list \<Rightarrow> real list \<Rightarrow> int \<Rightarrow> real \<Rightarrow> npfloat list \<Rightarrow>
   error + (npfloat \<times> npfloat \<times> freysoldt_plot \<times> freysoldt_uncertainty)" where
  "freysoldt_align grid pureavg defavg q widthsample v_R =
     bindE (np_sub defavg pureavg) (\<lambda>diff.
     bindE (np_sub_fl diff v_R) (\<lambda>short.
     bindE (nth_or_raise grid 1) (\<lambda>x1.
     bindE (nth_or_raise grid 0) (\<lambda>x0.
       if x1 - x0 = 0 then Inl NonFinite
       else
         (let checkdis = py_int ((widthsample / 2) / (x1 - x0));
              mid = int (length short div 2)
          in
            bindE (mapE (py_index short) [mid - checkdis..mid + checkdis]) (\<lambda>tmppot.
            bindE (py_index grid (mid - checkdis)) (\<lambda>_.
            bindE (py_index grid (mid + checkdis)) (\<lambda>_.
              (let C = fl_neg (np_mean tmppot);
                   shifted = map (\<lambda>s. fl_add s C) short;
                   v_R2 = map (\<lambda>elmnt. fl_sub elmnt C) v_R
               in
                 bindE (describe tmppot) (\<lambda>st.
                   Inr (fl_mul (Fin (- of_int q)) C, C,
                        \<lparr>Vr = v_R2, plot_x = grid, dft_diff = diff, final_shift = shifted,
                         check = (mid - checkdis, mid + checkdis + 1)\<rparr>,
                        \<lparr>stats = st, potcorr = fl_mul (Fin (- of_int q)) C\<rparr>)))))))))))"

text \<open>
  \<^verbatim>\<open>FreysoldtCorrection.perform_pot_corr\<close>. The second component of the result is the
  alignment constant \<open>C\<close>.
\<close>

definition freysoldt_perform_pot_corr ::
  "numerics \<Rightarrow> utils \<Rightarrow> freysoldt_correction \<Rightarrow> real list \<Rightarrow> real list \<Rightarrow> real list \<Rightarrow> lattice \<Rightarrow>
   int \<Rightarrow> vec3 \<Rightarrow> nat \<Rightarrow> real \<Rightarrow>
   error + (npfloat \<times> npfloat \<times> freysoldt_plot \<times> freysoldt_uncertainty)" where
  "freysoldt_perform_pot_corr num ut self grid pureavg defavg latt q defect_frac_position ax
       widthsample =
     bindE (axbulkval_of latt defect_frac_position ax) (\<lambda>axbulkval.
     bindE (shift_to_origin axbulkval grid pureavg defavg) (\<lambda>(pureavg', defavg').
     bindE (freysoldt_v_G ut self latt (length grid) q ax) (\<lambda>v_G.
     bindE (freysoldt_real_space num ut self latt v_G) (\<lambda>v_R.
       freysoldt_align grid pureavg' defavg' q widthsample v_R))))"

text \<open>Lines 101 to 112: the grids and planar averages of the axes to treat.\<close>

definition freysoldt_axes ::
  "freysoldt_correction \<Rightarrow> defect_entry \<Rightarrow>
   error + (real list \<times> real list \<times> real list \<times> nat) list" where
  "freysoldt_axes self entry =
     (case self_axis self of
        AxisNone \<Rightarrow>
          bindE (lookup_param (axis_grid (parameters entry))) (\<lambda>grids.
          bindE (lookup_param (bulk_planar_averages (parameters entry))) (\<lambda>bulks.
          bindE (lookup_param (defect_planar_averages (parameters entry))) (\<lambda>defects.
            Inr (zip grids (zip bulks (zip defects [0..<length grids]))))))
      | AxisInt a \<Rightarrow> Inl TypeError
      | AxisList axs \<Rightarrow>
          mapE (\<lambda>a.
            bindE (lookup_param (axis_grid (parameters entry))) (\<lambda>grids.
            bindE (nth_or_raise grids a) (\<lambda>grid.
            bindE (lookup_param (bulk_planar_averages (parameters entry))) (\<lambda>bulks.
            bindE (nth_or_raise bulks a) (\<lambda>bulk.
            bindE (lookup_param (defect_planar_averages (parameters entry))) (\<lambda>defects.
            bindE (nth_or_raise defects a) (\<lambda>dfct.
              Inr (grid, bulk, dfct, a)))))))) axs)"

text \<open>
  One pass of the loop of lines 123 to 128; the accumulator is \<^verbatim>\<open>pot_corr_tracker\<close>
  with the two dictionaries of the metadata.
\<close>

definition freysoldt_axis_step ::
  "numerics \<Rightarrow> utils \<Rightarrow> freysoldt_correction \<Rightarrow> lattice \<Rightarrow> int \<Rightarrow> vec3 \<Rightarrow>
   real list \<times> real list \<times> real list \<times> nat \<Rightarrow>
   npfloat list \<times> (nat \<rightharpoonup> freysoldt_plot) \<times> (nat \<rightharpoonup> freysoldt_uncertainty) \<Rightarrow>
   error + (npfloat list \<times> (nat \<rightharpoonup> freysoldt_plot) \<times> (nat \<rightharpoonup> freysoldt_uncertainty))" where
  "freysoldt_axis_step num ut self latt q defect_frac_coords item acc =
     (case item of
        (x, pureavg, defavg, ax) \<Rightarrow>
          (case acc of
             (pot_corr_tracker, plots, uncertainties) \<Rightarrow>
               bindE (freysoldt_perform_pot_corr num ut self x pureavg defavg latt q
                        defect_frac_coords ax 1) (\<lambda>(tmp_pot_corr, C, plot, uncertainty).
                 Inr (pot_corr_tracker @ [tmp_pot_corr], plots(ax \<mapsto> plot),
                      uncertainties(ax \<mapsto> uncertainty)))))"

text \<open>
  The dictionary that \<^verbatim>\<open>FreysoldtCorrection.get_correction\<close> returns, with the keys
  \<^verbatim>\<open>freysoldt_electrostatic\<close> and \<^verbatim>\<open>freysoldt_potential_alignment\<close>.
\<close>

record freysoldt_result =
  fc_electrostatic :: real
  fc_potential_alignment :: npfloat

text \<open>
  \<^verbatim>\<open>FreysoldtCorrection.get_correction\<close>: the returned dictionary and the entry with
  \<^verbatim>\<open>freysoldt_meta\<close> and \<^verbatim>\<open>potalign\<close> written. The potential alignment is the
  \<^verbatim>\<open>np.mean\<close> of the corrections of the axes.
\<close>

definition freysoldt_get_correction ::
  "numerics \<Rightarrow> utils \<Rightarrow> freysoldt_correction \<Rightarrow> defect_entry \<Rightarrow>
   error + (freysoldt_result \<times> defect_entry)" where
  "freysoldt_get_correction num ut self entry =
     bindE (freysoldt_axes self entry) (\<lambda>items.
     bindE (lookup_param (initial_defect_structure (parameters entry))) (\<lambda>defect_structure.
     bindE (lookup_param (defect_frac_sc_coords (parameters entry))) (\<lambda>defect_frac_coords.
       (let latt = struct_lattice defect_structure;
            q = charge entry
        in
          bindE (freysoldt_perform_es_corr num ut self latt (charge entry) (1 / 10 ^ 4)) (\<lambda>es_corr.
          bindE (foldE (freysoldt_axis_step num ut self latt (charge entry) defect_frac_coords)
                   items ([], Map.empty, Map.empty)) (\<lambda>(pot_corr_tracker, plots, uncertainties).
            (let pot_corr = np_mean pot_corr_tracker in
             Inr (\<lparr>fc_electrostatic = es_corr, fc_potential_alignment = pot_corr\<rparr>,
                  entry\<lparr>parameters := (parameters entry)
                    \<lparr>freysoldt_meta := Some
                       \<lparr>pot_plot_data = plots,
                        pot_corr_uncertainty_md = uncertainties,
                        freysoldt_electrostatic = None,
                        freysoldt_potential_alignment_correction = None\<rparr>,
                     potalign :=
                       Some (if q \<noteq> 0 then fl_div pot_corr (Fin (- of_int q)) else Fin 0)\<rparr>\<rparr>))))))))"

section \<open>DefectCompatibility\<close>

text \<open>
  The methods of the class as they are written. The import statement of the module also
  names \<^verbatim>\<open>generate_g_sum\<close> and \<^verbatim>\<open>find_optimal_gamma\<close>, which \<^verbatim>\<open>corrections.py\<close> does
  not define; the embedding describes the methods from the point where the module has
  been loaded.
\<close>

record defect_compatibility =
  plnr_avg_var_tol :: real
  plnr_avg_minmax_tol :: real
  atomic_site_var_tol :: real
  atomic_site_minmax_tol :: real
  tot_relax_tol :: real
  perc_relax_tol :: real
  defect_tot_relax_tol :: real
  preferred_cc :: string
  free_chg_cutoff :: real
  use_bandfilling :: bool
  use_bandedgeshift :: bool

text \<open>The default arguments of \<^verbatim>\<open>__init__\<close>.\<close>

definition DefectCompatibility_default :: defect_compatibility where
  "DefectCompatibility_default =
     \<lparr>plnr_avg_var_tol = 1 / 10, plnr_avg_minmax_tol = 1 / 10,
      atomic_site_var_tol = 1 / 10, atomic_site_minmax_tol = 1 / 10,
      tot_relax_tol = 1 / 10, perc_relax_tol = 1 / 10, defect_tot_relax_tol = 1 / 10,
      preferred_cc = ''freysoldt'', free_chg_cutoff = 2,
      use_bandfilling = True, use_bandedgeshift = True\<rparr>"

text \<open>
  The methods the class defines, in the order of the source. A call
  \<^verbatim>\<open>self.name(...)\<close> of a name that is neither one of them nor an instance attribute
  raises \<^verbatim>\<open>AttributeError\<close>; the base class \<^verbatim>\<open>MSONable\<close> only adds serialisation
  methods.
\<close>

definition DefectCompatibility_methods :: "string list" where
  "DefectCompatibility_methods =
     [''__init__'', ''process_entry'', ''perform_all_corrections'', ''perform_freysoldt'',
      ''perform_kumagai'', ''run_bandfilling'', ''run_band_edge_shifting'',
      ''delocalization_analysis'', ''is_freysoldt_delocalized'', ''is_kumagai_delocalized'',
      ''is_final_relaxed_structure_delocalized'']"

definition getattr_method :: "string \<Rightarrow> error + unit" where
  "getattr_method name =
     (if name \<in> set DefectCompatibility_methods then Inr () else Inl AttributeError)"

text \<open>
  One pass of the loop over the three axes in \<^verbatim>\<open>is_freysoldt_delocalized\<close>. The
  accumulator is (\<^verbatim>\<open>plnr_avg_analyze_meta\<close>, \<^verbatim>\<open>plnr_avg_allows_compatible\<close>). The source
  updates \<^verbatim>\<open>plnr_avg_analyze_meta[ax]\<close>, which reads the key \<open>ax\<close> first.
\<close>

definition freysoldt_delocalized_axis ::
  "defect_compatibility \<Rightarrow> defect_entry \<Rightarrow> nat \<Rightarrow> (nat \<rightharpoonup> plnr_avg_axis_meta) \<times> bool \<Rightarrow>
   error + ((nat \<rightharpoonup> plnr_avg_axis_meta) \<times> bool)" where
  "freysoldt_delocalized_axis self defect_entry ax acc =
     bindE (lookup_param (freysoldt_meta (parameters defect_entry))) (\<lambda>fm.
     bindE (lookup_param (pot_corr_uncertainty_md fm ax)) (\<lambda>unc.
       (let freystats = stats unc;
            var_ok = fl_le (variance freystats) (Fin (plnr_avg_var_tol self));
            frey_window = fl_abs (fl_sub (snd (minmax freystats)) (fst (minmax freystats)));
            minmax_ok = fl_le frey_window (Fin (plnr_avg_minmax_tol self))
        in
          bindE (lookup_param (fst acc ax)) (\<lambda>old.
            Inr ((fst acc)(ax \<mapsto>
                    \<lparr>frey_variance_compatible = var_ok,
                     frey_variance = variance freystats,
                     plnr_avg_var_tol_used = plnr_avg_var_tol self,
                     frey_minmax_compatible = minmax_ok,
                     frey_minmax_window = frey_window,
                     plnr_avg_minmax_tol_used = plnr_avg_minmax_tol self\<rparr>),
                 (if \<not> var_ok \<or> \<not> minmax_ok then False else snd acc))))))"

definition is_freysoldt_delocalized ::
  "defect_compatibility \<Rightarrow> defect_entry \<Rightarrow> error + defect_entry" where
  "is_freysoldt_delocalized self defect_entry =
     bindE (foldE (freysoldt_delocalized_axis self defect_entry) [0, 1, 2] (Map.empty, True))
       (\<lambda>(plnr_avg_analyze_meta, plnr_avg_allows_compatible).
          Inr (defect_entry\<lparr>parameters := (parameters defect_entry)
                 \<lparr>delocalization_meta := Some
                    [''plnr_avg'' \<mapsto>
                       \<lparr>check_is_compatible = plnr_avg_allows_compatible,
                        check_metadata = PlnrAvgMeta plnr_avg_analyze_meta\<rparr>]\<rparr>\<rparr>))"

definition is_kumagai_delocalized ::
  "defect_compatibility \<Rightarrow> defect_entry \<Rightarrow> error + defect_entry" where
  "is_kumagai_delocalized self defect_entry =
     bindE (lookup_param (kumagai_meta (parameters defect_entry))) (\<lambda>km.
       (let kumagaistats = kumagai_stats km;
            var_ok = fl_le (variance kumagaistats) (Fin (atomic_site_var_tol self));
            kumagai_window =
              fl_abs (fl_sub (snd (minmax kumagaistats)) (fst (minmax kumagaistats)));
            minmax_ok = fl_le kumagai_window (Fin (atomic_site_minmax_tol self));
            atomic_site_analyze_meta =
              \<lparr>kumagai_variance_compatible = var_ok,
               kumagai_variance = variance kumagaistats,
               atomic_site_var_tol_used = atomic_site_var_tol self,
               kumagai_minmax_compatible = minmax_ok,
               kumagai_minmax_window = kumagai_window,
               atomic_site_minmax_tol_used = atomic_site_minmax_tol self\<rparr>;
            atomic_site_allows_compatible = (var_ok \<and> minmax_ok)
        in
          Inr (defect_entry\<lparr>parameters := (parameters defect_entry)
                 \<lparr>delocalization_meta := Some
                    [''atomic_site'' \<mapsto>
                       \<lparr>check_is_compatible = atomic_site_allows_compatible,
                        check_metadata = AtomicSiteMeta atomic_site_analyze_meta\<rparr>]\<rparr>\<rparr>)))"

text \<open>
  Lines 356 to 364 of \<^verbatim>\<open>is_final_relaxed_structure_delocalized\<close>: the total
  displacement and, for every site but the defect, its distance to the defect, its
  displacement and its index.
\<close>

definition relax_distdata ::
  "(nat \<Rightarrow> nat \<Rightarrow> real) \<Rightarrow> nat \<Rightarrow> nat \<Rightarrow> real \<times> (real \<times> real \<times> nat) list" where
  "relax_distdata dm n defindex =
     (let inds = filter (\<lambda>ind. ind \<noteq> defindex) [0..<n] in
      (sum_list (map (\<lambda>ind. dm ind ind) inds),
       map (\<lambda>ind. (dm ind defindex, dm ind ind, ind)) inds))"

text \<open>
  Lines 366 to 373: after sorting, every row gets its percentage of the total
  displacement; the rows beyond the sampling radius are summed.
\<close>

definition relax_outside ::
  "real \<Rightarrow> real \<Rightarrow> (real \<times> real \<times> nat) list \<Rightarrow>
   error + ((real \<times> real \<times> nat \<times> real) list \<times> real \<times> real)" where
  "relax_outside radius_to_sample totpert distdata =
     (if distdata \<noteq> [] \<and> totpert = 0 then Inl NonFinite
      else
        (let rows = map (\<lambda>(d, t, ind). (d, t, ind, 100 * t / totpert)) (sort distdata);
             outside = filter (\<lambda>(d, t, ind, p). d > radius_to_sample) rows
         in Inr (rows, sum_list (map (\<lambda>(d, t, ind, p). t) outside),
                 sum_list (map (\<lambda>(d, t, ind, p). p) outside))))"

text \<open>
  \<^verbatim>\<open>is_final_relaxed_structure_delocalized\<close>. For a vacancy \<^verbatim>\<open>defindex\<close> is
  \<^verbatim>\<open>None\<close>, and \<^verbatim>\<open>distmatrix[ind, None]\<close> is a whole row as an array: sorting two or more
  such rows compares arrays and raises \<^verbatim>\<open>ValueError\<close>; with a single site the row has
  the single entry \<^verbatim>\<open>distmatrix[0, 0]\<close>.
\<close>

definition is_final_relaxed_structure_delocalized ::
  "defect_compatibility \<Rightarrow> defect_entry \<Rightarrow> error + defect_entry" where
  "is_final_relaxed_structure_delocalized self defect_entry =
     (let initial_structure = generated_defect_structure (relaxation defect_entry);
          dm = distmatrix (relaxation defect_entry);
          n = length (sites initial_structure)
      in
        bindE (lookup_param (final_structure (parameters defect_entry))) (\<lambda>final_str.
        bindE (lookup_param (kumagai_meta (parameters defect_entry))) (\<lambda>km.
          (let radius_to_sample = kumagai_sampling_radius km in
           bindE (if \<not> defect_is_vacancy defect_entry
                  then bindE (nth_or_raise (poss_deflist (relaxation defect_entry)) 0)
                         (\<lambda>i. Inr (Some i))
                  else Inr None) (\<lambda>defindex.
             if length (sites final_str) < n then Inl IndexError
             else
               bindE (case defindex of
                        Some i \<Rightarrow>
                          if 0 < n \<and> n \<le> i then Inl IndexError else Inr (relax_distdata dm n i)
                      | None \<Rightarrow>
                          if 2 \<le> n then Inl ValueError
                          else Inr (sum_list (map (\<lambda>ind. dm ind ind) [0..<n]),
                                    map (\<lambda>ind. (dm ind 0, dm ind ind, ind)) [0..<n]))
                 (\<lambda>(totpert, distdata).
               bindE (relax_outside radius_to_sample totpert distdata)
                 (\<lambda>(rows, tot_outside, perc_outside).
                 (let tot_ok = (tot_outside \<le> tot_relax_tol self);
                      perc_ok = (perc_outside \<le> perc_relax_tol self);
                      structure_relax_analyze_meta =
                        \<lparr>structure_tot_relax_compatible = tot_ok,
                         tot_relax_outside_wsrad = tot_outside,
                         tot_relax_tol_used = tot_relax_tol self,
                         structure_perc_relax_compatible = perc_ok,
                         perc_relax_outside_wsrad = perc_outside,
                         perc_relax_tol_used = perc_relax_tol self,
                         full_structure_relax_data = rows,
                         defect_index = defindex\<rparr>;
                      entry1 = defect_entry\<lparr>parameters := (parameters defect_entry)
                        \<lparr>delocalization_meta := Some
                           [''structure_relax'' \<mapsto>
                              \<lparr>check_is_compatible = (tot_ok \<and> perc_ok),
                               check_metadata =
                                 StructureRelaxMeta structure_relax_analyze_meta\<rparr>]\<rparr>\<rparr>
                  in
                    bindE (case defindex of
                             None \<Rightarrow>
                               Inr (True, \<lparr>relax_amount = None,
                                           defect_tot_relax_tol_used = defect_tot_relax_tol self\<rparr>)
                           | Some i \<Rightarrow>
                               if n \<le> i then Inl IndexError
                               else Inr (dm i i \<le> defect_tot_relax_tol self,
                                         \<lparr>relax_amount = Some (dm i i),
                                          defect_tot_relax_tol_used = defect_tot_relax_tol self\<rparr>))
                      (\<lambda>(site_ok, defectsite_relax_analyze_meta).
                         Inr (entry1\<lparr>parameters := (parameters entry1)
                                \<lparr>delocalization_meta := Some
                                   [''defectsite_relax'' \<mapsto>
                                      \<lparr>check_is_compatible = site_ok,
                                       check_metadata =
                                         DefectSiteRelaxMeta
                                           defectsite_relax_analyze_meta\<rparr>]\<rparr>\<rparr>))))))))))"

text \<open>
  \<^verbatim>\<open>delocalization_analysis\<close>. Its last statement reads the name \<^verbatim>\<open>is_compatible\<close>,
  which is bound nowhere in the function or the module.
\<close>

definition delocalization_analysis ::
  "defect_compatibility \<Rightarrow> defect_entry \<Rightarrow> error + defect_entry" where
  "delocalization_analysis self defect_entry =
     bindE (if freysoldt_meta (parameters defect_entry) \<noteq> None
            then is_freysoldt_delocalized self defect_entry else Inr defect_entry) (\<lambda>entry1.
     bindE (if kumagai_meta (parameters entry1) \<noteq> None
            then is_kumagai_delocalized self entry1 else Inr entry1) (\<lambda>entry2.
     bindE (if final_defect_structure (parameters entry2) \<noteq> None
               \<and> final_structure (parameters entry2) \<noteq> None
            then is_final_relaxed_structure_delocalized self entry2 else Inr entry2) (\<lambda>entry3.
       Inl NameError)))"

text \<open>\<^verbatim>\<open>str.lower\<close> on ASCII and the substring test \<^verbatim>\<open>a in b\<close>.\<close>

definition lower_char :: "char \<Rightarrow> char" where
  "lower_char c =
     (let n = (of_char c :: nat) in if 65 \<le> n \<and> n \<le> 90 then char_of (n + 32) else c)"

fun starts_with :: "string \<Rightarrow> string \<Rightarrow> bool" where
  "starts_with [] ys = True"
| "starts_with (x # xs) [] = False"
| "starts_with (x # xs) (y # ys) = (x = y \<and> starts_with xs ys)"

fun py_in :: "string \<Rightarrow> string \<Rightarrow> bool" where
  "py_in a [] = (a = [])"
| "py_in a (y # ys) = (starts_with a (y # ys) \<or> py_in a ys)"

text \<open>
  Lines 91 to 104 of \<^verbatim>\<open>process_entry\<close>: the dictionary \<^verbatim>\<open>corrections\<close> after the choice
  of the charge correction.
\<close>

definition charge_correction_policy ::
  "defect_compatibility \<Rightarrow> defect_entry \<Rightarrow> error + (string \<rightharpoonup> real)" where
  "charge_correction_policy self defect_entry =
     bindE (lookup_param (num_hole_vbm (parameters defect_entry))) (\<lambda>holes.
     bindE (if free_chg_cutoff self < holes then Inr True
            else bindE (lookup_param (num_elec_cbm (parameters defect_entry)))
                   (\<lambda>elecs. Inr (free_chg_cutoff self < elecs))) (\<lambda>too_many.
       if too_many then Inr Map.empty
       else if py_in ''freysoldt'' (map lower_char (preferred_cc self)) then
         bindE (lookup_param (freysoldt_meta (parameters defect_entry))) (\<lambda>frey_meta.
         bindE (lookup_param (freysoldt_electrostatic frey_meta)) (\<lambda>es.
         bindE (lookup_param (freysoldt_potential_alignment_correction frey_meta)) (\<lambda>pa.
           Inr [''charge_correction'' \<mapsto> es + pa])))
       else
         bindE (lookup_param (kumagai_meta (parameters defect_entry))) (\<lambda>kumagai_meta.
         bindE (lookup_param (kumagai_electrostatic kumagai_meta)) (\<lambda>es.
         bindE (lookup_param (kumagai_potential_alignment_correction kumagai_meta)) (\<lambda>pa.
           Inr [''charge_correction'' \<mapsto> es + pa])))))"

text \<open>Lines 106 to 133: the other corrections, the phase diagram data and the update.\<close>

definition other_corrections ::
  "defect_compatibility \<Rightarrow> defect_entry \<Rightarrow> (string \<rightharpoonup> real) \<Rightarrow> error + defect_entry" where
  "other_corrections self defect_entry corrections =
     bindE (if use_bandfilling self
            then bindE (lookup_param (bandfilling_meta (parameters defect_entry))) (\<lambda>bm.
                   Inr (corrections(''bandfilling_correction'' \<mapsto> bandfilling_correction bm)))
            else Inr corrections) (\<lambda>corrections1.
     bindE (if use_bandedgeshift self
            then bindE (lookup_param (bandshift_meta (parameters defect_entry))) (\<lambda>bs.
                 bindE (lookup_param (hybrid_vbm (parameters defect_entry))) (\<lambda>hv.
                 bindE (lookup_param (hybrid_cbm (parameters defect_entry))) (\<lambda>hc.
                 bindE (lookup_param (hybrid_vbm (parameters defect_entry))) (\<lambda>hv'.
                   Inr (corrections1(''bandedgeshifting_correction'' \<mapsto>
                          vbm_shift_correction bs + hole_vbm_shift_correction bs
                            + elec_cbm_shift_correction bs),
                        (hv, hc - hv'))))))
            else bindE (lookup_param (vbm (parameters defect_entry))) (\<lambda>v.
                 bindE (lookup_param (cbm (parameters defect_entry))) (\<lambda>c.
                 bindE (lookup_param (vbm (parameters defect_entry))) (\<lambda>v'.
                   Inr (corrections1, (v, c - v')))))) (\<lambda>(corrections2, pd).
       Inr (defect_entry
              \<lparr>parameters := (parameters defect_entry)\<lparr>phasediagram_meta := Some pd\<rparr>,
               correction := correction defect_entry ++ corrections2\<rparr>)))"

text \<open>
  \<^verbatim>\<open>process_entry\<close>. Its first statement calls \<^verbatim>\<open>self.perform_corrections\<close>; the
  statements after it are those of the source.
\<close>

definition process_entry ::
  "defect_compatibility \<Rightarrow> defect_entry \<Rightarrow> error + defect_entry" where
  "process_entry self defect_entry =
     bindE (getattr_method ''perform_corrections'') (\<lambda>_.
     bindE (delocalization_analysis self defect_entry) (\<lambda>entry1.
     bindE (charge_correction_policy self entry1) (\<lambda>corrections.
       other_corrections self entry1 corrections)))"

section \<open>A concrete setting\<close>

text \<open>
  A cubic cell of side 2 \<open>\<AA>\<close> with three atoms, planar averages on four grid points
  per axis, and simple stand-ins for the collaborators: the constants are those of
  \<^verbatim>\<open>pymatgen.analysis.defects.utils\<close>, the model charge is the Gaussian of the default
  \<^verbatim>\<open>QModel\<close>, quadrature is the midpoint rule, no reciprocal vector lies below the
  cutoff, and the transform of an array with an entry that is infinite or not-a-number
  is not-a-number in every component.
\<close>

definition cubic_lattice :: lattice where
  "cubic_lattice =
     \<lparr>matrix = ((2, 0, 0), (0, 2, 0), (0, 0, 2)),
      abc = (2, 2, 2),
      reciprocal_abc = (pi, pi, pi),
      volume = 8,
      wigner_seitz_cell =
        [[(1, 1, 1), (1, 1, - 1), (1, - 1, 1), (1, - 1, - 1)],
         [(- 1, 1, 1), (- 1, 1, - 1), (- 1, - 1, 1), (- 1, - 1, - 1)],
         [(1, 1, 1), (1, 1, - 1), (- 1, 1, 1), (- 1, 1, - 1)],
         [(1, - 1, 1), (1, - 1, - 1), (- 1, - 1, 1), (- 1, - 1, - 1)],
         [(1, 1, 1), (1, - 1, 1), (- 1, 1, 1), (- 1, - 1, 1)],
         [(1, 1, - 1), (1, - 1, - 1), (- 1, 1, - 1), (- 1, - 1, - 1)]],
      get_cartesian_coords = scale3 2\<rparr>"

definition cubic_structure :: py_structure where
  "cubic_structure =
     \<lparr>struct_lattice = cubic_lattice,
      sites = [\<lparr>species = 1, frac_coords = (1 / 4, 0, 0)\<rparr>,
               \<lparr>species = 1, frac_coords = (1 / 2, 1 / 2, 0)\<rparr>,
               \<lparr>species = 2, frac_coords = (1 / 2, 1 / 2, 1 / 2)\<rparr>],
      distance_and_image_from_frac_coords =
        (\<lambda>st fcoords. (norm3 (scale3 2 (sub3 (frac_coords st) fcoords)), (0, 0, 0)))\<rparr>"

definition gaussian_qmodel :: qmodel where
  "gaussian_qmodel = \<lparr>rho_rec = (\<lambda>g2. exp (- g2 / 4)), rho_rec_limit0 = - 1 / 2\<rparr>"

definition simple_utils :: utils where
  "simple_utils =
     \<lparr>ang_to_bohr = 18897 / 10000,
      hart_to_ev = 272114 / 10000,
      kumagai_to_V = 1809512739 / 10000000,
      eV_to_k = (\<lambda>energy. sqrt (energy / (380986 / 100000))),
      generate_reciprocal_vectors_squared = (\<lambda>a1 a2 a3 encut. []),
      tune_for_gamma = (\<lambda>latt dielectric. 1 / 2),
      generate_R_and_G_vecs =
        (\<lambda>gamma prec_set latt dielectric. ([[], []], [0, 0], [[], []], [0, 0]))\<rparr>"

definition simple_numerics :: numerics where
  "simple_numerics =
     \<lparr>quad = (\<lambda>f a b. (b - a) * f ((a + b) / 2)),
      erfc = (\<lambda>x. exp (- x\<^sup>2)),
      fft_nonfinite = map (\<lambda>x. (NaN, NaN))\<rparr>"

definition no_parameters :: parameters where
  "no_parameters =
     \<lparr>axis_grid = None, bulk_planar_averages = None, defect_planar_averages = None,
      initial_defect_structure = None, defect_frac_sc_coords = None,
      bulk_atomic_site_averages = None, defect_atomic_site_averages = None,
      site_matching_indices = None, potalign = None, freysoldt_meta = None,
      kumagai_meta = None, num_hole_vbm = None, num_elec_cbm = None,
      bandfilling_meta = None, bandshift_meta = None, hybrid_vbm = None, hybrid_cbm = None,
      vbm = None, cbm = None, phasediagram_meta = None, delocalization_meta = None,
      final_defect_structure = None, final_structure = None, is_compatible = None\<rparr>"

definition cubic_grid :: "real list" where
  "cubic_grid = [0, 1 / 2, 1, 3 / 2]"

definition cubic_bulk_average :: "real list" where
  "cubic_bulk_average = [1, 2, 3, 2]"

definition cubic_defect_average :: "real list" where
  "cubic_defect_average = [1, 5 / 2, 7 / 2, 3]"

definition cubic_bulk_site_average :: "real list" where
  "cubic_bulk_site_average = [- 40, - 41, - 42]"

definition cubic_defect_site_average :: "real list" where
  "cubic_defect_site_average = [- 40, - 41 - 1 / 5, - 42 - 3 / 10]"

definition cubic_matching :: "(nat \<times> nat) list" where
  "cubic_matching = [(0, 0), (1, 1), (2, 2)]"

text \<open>
  An entry with a substitution at the origin: the inputs of both charge corrections,
  and the relaxation data of its three atoms.
\<close>

definition cubic_entry :: "int \<Rightarrow> defect_entry" where
  "cubic_entry q =
     \<lparr>charge = q,
      defect_is_vacancy = False,
      relaxation =
        \<lparr>generated_defect_structure = cubic_structure,
         poss_deflist = [0],
         distmatrix = (\<lambda>i j. if i = j then 1 / 100 else 1)\<rparr>,
      parameters = no_parameters
        \<lparr>axis_grid := Some [cubic_grid, cubic_grid, cubic_grid],
         bulk_planar_averages :=
           Some [cubic_bulk_average, cubic_bulk_average, cubic_bulk_average],
         defect_planar_averages :=
           Some [cubic_defect_average, cubic_defect_average, cubic_defect_average],
         initial_defect_structure := Some cubic_structure,
         defect_frac_sc_coords := Some (0, 0, 0),
         bulk_atomic_site_averages := Some cubic_bulk_site_average,
         defect_atomic_site_averages := Some cubic_defect_site_average,
         site_matching_indices := Some cubic_matching\<rparr>,
      correction = Map.empty\<rparr>"

definition cubic_freysoldt :: freysoldt_correction where
  "cubic_freysoldt =
     FreysoldtCorrection_init (DielectricScalar 10) gaussian_qmodel 520 (1 / 10000) AxisNone"

definition cubic_kumagai :: kumagai_correction where
  "cubic_kumagai = KumagaiCorrection_init (DielectricScalar 10) None None"


section \<open>Notions used to state the properties\<close>

text \<open>
  The residuals that enter the Kumagai alignment, given each site of the site list
  paired with its distance to the defect, its model potential and its index: the raw
  potential difference minus the model potential, for the sites whose distance exceeds
  the sampling radius.
\<close>

definition sampled_residuals ::
  "real \<Rightarrow> ((site \<times> real) \<times> (real \<times> real \<times> nat)) list \<Rightarrow> real list" where
  "sampled_residuals sampling_radius zs =
     map (\<lambda>(sv, (d, vpc, idx)). snd sv - vpc)
       (filter (\<lambda>(sv, (d, vpc, idx)). d > sampling_radius) zs)"

text \<open>The per-site dictionary that the same loop records.\<close>

definition pot_dict_of ::
  "((site \<times> real) \<times> (real \<times> real \<times> nat)) list \<Rightarrow> (nat \<rightharpoonup> pot_site) \<Rightarrow> (nat \<rightharpoonup> pot_site)" where
  "pot_dict_of zs pot_dict =
     fold (\<lambda>(sv, (d, vpc, idx)) m.
             m(idx \<mapsto> \<lparr>site_Vpc = vpc, site_Vqb = snd sv, site_dist_to_defect = d\<rparr>))
       zs pot_dict"

text \<open>
  What a caller sees of a charge correction: the two energies and the \<^verbatim>\<open>potalign\<close>
  parameter of the entry.
\<close>

definition correction_summary ::
  "error + (charge_correction \<times> defect_entry) \<Rightarrow> error + (real \<times> real \<times> npfloat option)" where
  "correction_summary r =
     (case r of
        Inl e \<Rightarrow> Inl e
      | Inr (res, entry) \<Rightarrow>
          Inr (electrostatic res, potential_alignment res, potalign (parameters entry)))"

text \<open>The same for the Freysoldt correction.\<close>

definition freysoldt_summary ::
  "error + (freysoldt_result \<times> defect_entry) \<Rightarrow> error + (real \<times> npfloat \<times> npfloat option)" where
  "freysoldt_summary r =
     (case r of
        Inl e \<Rightarrow> Inl e
      | Inr (res, entry) \<Rightarrow>
          Inr (fc_electrostatic res, fc_potential_alignment res, potalign (parameters entry)))"

text \<open>The checks that \<^verbatim>\<open>delocalization_meta\<close> of an entry holds, among the given names.\<close>

definition recorded_checks :: "defect_entry \<Rightarrow> string list \<Rightarrow> string list" where
  "recorded_checks entry names =
     filter (\<lambda>name. case delocalization_meta (parameters entry) of
                       None \<Rightarrow> False
                     | Some m \<Rightarrow> m name \<noteq> None) names"

text \<open>The four checks that the docstring of \<^verbatim>\<open>delocalization_analysis\<close> lists.\<close>

definition delocalization_checks :: "string list" where
  "delocalization_checks =
     [''plnr_avg'', ''atomic_site'', ''structure_relax'', ''defectsite_relax'']"

text \<open>
  The entry of the concrete setting with charge 1 after a Kumagai correction and a
  relaxation: the statistics of the two sampled residuals \<open>1 / 5\<close> and \<open>3 / 10\<close>, the
  sampling radius 1, and the final structure.
\<close>

definition cubic_kumagai_meta :: kumagai_meta where
  "cubic_kumagai_meta =
     \<lparr>kumagai_gamma = 1 / 2,
      kumagai_sampling_radius = 1,
      kumagai_potalign = 1 / 4,
      kumagai_stats =
        \<lparr>nobs = 2, minmax = (Fin (1 / 5), Fin (3 / 10)), mean = Fin (1 / 4),
         variance = Fin (1 / 200)\<rparr>,
      kumagai_number_sampled = 2,
      kumagai_pot_plot_data = Map.empty,
      kumagai_electrostatic = Some 1,
      kumagai_potential_alignment_correction = Some (- 1 / 4)\<rparr>"

definition relaxed_entry :: defect_entry where
  "relaxed_entry =
     (cubic_entry 1)\<lparr>parameters := (parameters (cubic_entry 1))
        \<lparr>kumagai_meta := Some cubic_kumagai_meta,
         final_defect_structure := Some cubic_structure,
         final_structure := Some cubic_structure\<rparr>\<rparr>"

text \<open>
  The sites of the concrete setting with their raw potential differences (defect minus
  bulk, with the sign of the test charge).
\<close>

definition cubic_site_list :: "(site \<times> real) list" where
  "cubic_site_list = zip (sites cubic_structure) [0, 1 / 5, 3 / 10]"

text \<open>The model potential of the concrete setting in reciprocal space, for a charge.\<close>

definition cubic_v0 :: "int \<Rightarrow> real" where
  "cubic_v0 q = 4 * pi * - of_int q / 10 * (- 1 / 2)"

definition cubic_v1 :: "int \<Rightarrow> real" where
  "cubic_v1 q = 4 * pi / (10 * (pi / (18897 / 10000))\<^sup>2) * - of_int q
                  * exp (- (pi / (18897 / 10000))\<^sup>2 / 4)"

text \<open>
  Lattice summations that do not agree at either precision pair, and summations that
  agree only at the second pair.
\<close>

definition diverging_utils :: utils where
  "diverging_utils =
     simple_utils\<lparr>generate_R_and_G_vecs :=
       (\<lambda>gamma prec_set latt dielectric. ([[], []], [0, 0], [[], []], [0, 1]))\<rparr>"

definition late_converging_utils :: utils where
  "late_converging_utils =
     simple_utils\<lparr>generate_R_and_G_vecs :=
       (\<lambda>gamma prec_set latt dielectric.
          if prec_set = [25, 28] then ([[], []], [0, 0], [[], []], [0, 1])
          else ([[], []], [0, 0], [[], []], [0, 0]))\<rparr>"







text \<open>
  Planar averages on three grid points per axis, and the entry of the concrete setting
  with them.
\<close>

definition odd_grid :: "real list" where
  "odd_grid = [0, 2 / 3, 4 / 3]"

definition odd_bulk_average :: "real list" where
  "odd_bulk_average = [1, 2, 3]"

definition odd_defect_average :: "real list" where
  "odd_defect_average = [1, 5 / 2, 7 / 2]"

definition odd_grid_entry :: "int \<Rightarrow> defect_entry" where
  "odd_grid_entry q =
     (cubic_entry q)\<lparr>parameters := (parameters (cubic_entry q))
        \<lparr>axis_grid := Some [odd_grid, odd_grid, odd_grid],
         bulk_planar_averages := Some [odd_bulk_average, odd_bulk_average, odd_bulk_average],
         defect_planar_averages :=
           Some [odd_defect_average, odd_defect_average, odd_defect_average]\<rparr>\<rparr>"

section \<open>Basic facts\<close>

lemma bindE_Inr [simp]: "bindE (Inr x) f = f x"
  by (simp add: bindE_def)

lemma bindE_Inl [simp]: "bindE (Inl e) f = Inl e"
  by (simp add: bindE_def)

lemma bindE_Inr_iff: "bindE m f = Inr y \<longleftrightarrow> (\<exists>x. m = Inr x \<and> f x = Inr y)"
  by (cases m) simp_all

lemma fold_unchanged:
  "(\<And>x a. x \<in> set xs \<Longrightarrow> f x a = a) \<Longrightarrow> fold f xs acc = acc"
  by (induction xs arbitrary: acc) auto

section \<open>Band filling\<close>

lemma bandfill_state_host:
  "host_occupation resolution core scbm svbm st \<Longrightarrow>
   bandfill_state resolution fctr core scbm svbm w st acc = acc"
  by (cases st; cases acc) (auto simp: host_occupation_def)

lemma bandfill_kptset_host:
  "\<forall>st \<in> set (fst kw). host_occupation resolution core scbm svbm st \<Longrightarrow>
   bandfill_kptset resolution fctr core scbm svbm kw acc = acc"
  unfolding bandfill_kptset_def
  by (rule fold_unchanged) (simp add: bandfill_state_host)

lemma bandfill_spinset_host:
  "\<forall>kptset \<in> set spinset. \<forall>st \<in> set kptset. host_occupation resolution core scbm svbm st \<Longrightarrow>
   bandfill_spinset resolution fctr core scbm svbm kpoint_weights spinset acc = acc"
  unfolding bandfill_spinset_def
  by (rule fold_unchanged) (auto intro!: bandfill_kptset_host dest: set_zip_leftD)

lemma bandfill_accumulate_host:
  assumes "ideal_spectrum resolution core eigenvalues palign vbm0 cbm0"
  shows "bandfill_accumulate resolution fctr core eigenvalues kpoint_weights palign vbm0 cbm0 =
     (0, \<lparr>bf_num_hole_vbm = 0, bf_num_elec_cbm = 0, bf_potalign = palign\<rparr>)"
proof -
  have "fold (bandfill_spinset resolution fctr core (palign + cbm0) (palign + vbm0) kpoint_weights)
          (map snd eigenvalues) (0, 0, 0) = (0, 0, 0)"
    using assms unfolding ideal_spectrum_def
    by (intro fold_unchanged bandfill_spinset_host) blast
  then show ?thesis by (simp add: bandfill_accumulate_def)
qed

lemma spinfctr_le2:
  "length eigenvalues \<le> 2 \<Longrightarrow> eigenvalues \<noteq> [] \<Longrightarrow> \<exists>f. spinfctr eigenvalues core = Inr f"
  by (cases eigenvalues; cases "tl eigenvalues") (auto simp: spinfctr_def)

lemma core_occupation_nonempty:
  "core_occupation_value eigenvalues = Inr core \<Longrightarrow> eigenvalues \<noteq> []"
  by (auto simp: core_occupation_value_def bindE_def nth_or_raise_def)

text \<open>
  Claim C8. When every state of the spectrum has the occupation it has in the ideal
  host (the core occupation at or below the valence band edge, zero above the
  conduction band edge, both edges shifted by the potential alignment and widened by the
  resolution), the band-filling correction is exactly 0 and the counts of free holes and
  free electrons are both exactly 0. The spectrum has one or two spin channels and a
  first state to read the core occupation from, so that the correction is computed at
  all.
\<close>

theorem bandfilling_zero_for_host_occupation:
  assumes "core_occupation_value eigenvalues = Inr core"
    and "length eigenvalues \<le> 2"
    and "ideal_spectrum resolution core eigenvalues palign vbm0 cbm0"
  shows "perform_bandfill_corr resolution eigenvalues kpoint_weights palign vbm0 cbm0 =
     Inr (0, \<lparr>bf_num_hole_vbm = 0, bf_num_elec_cbm = 0, bf_potalign = palign\<rparr>)"
proof -
  obtain f where "spinfctr eigenvalues core = Inr f"
    using spinfctr_le2 [OF assms(2) core_occupation_nonempty [OF assms(1)]] by blast
  then show ?thesis
    using assms(1) bandfill_accumulate_host [OF assms(3)]
    by (simp add: perform_bandfill_corr_def)
qed

text \<open>
  A spin-polarised spectrum over two k-points: filled valence states, a half-filled
  state inside the gap, empty conduction states.
\<close>

theorem bandfilling_zero_for_host_occupation_witness:
  "perform_bandfill_corr (1 / 100)
      [(1 :: int, [[(- 5, 1), (0, 1), (6, 0)], [(- 4, 1), (3, 1 / 2), (7, 0)]]),
       (- 1, [[(- 5, 1), (0, 1), (6, 0)], [(- 4, 1), (3, 0), (7, 0)]])]
      [1 / 2, 1 / 2] 0 0 5 =
     Inr (0, \<lparr>bf_num_hole_vbm = 0, bf_num_elec_cbm = 0, bf_potalign = 0\<rparr>)"
  by (rule bandfilling_zero_for_host_occupation [where core = 1])
     (simp_all add: core_occupation_value_def nth_or_raise_def ideal_spectrum_def
        host_occupation_def)

text \<open>
  Claim C10. With more than two spin-channel keys the band-filling computation raises
  and returns no correction. With exactly one spin channel whose sampled (core)
  occupation is 1 the sums are taken with the spin factor 2, and with two spin channels
  with the factor 1.
\<close>

theorem bandfilling_spin_channels:
  "(2 < length eigenvalues \<longrightarrow>
      (\<exists>e. perform_bandfill_corr resolution eigenvalues kpoint_weights palign vbm0 cbm0 = Inl e))
   \<and> (length eigenvalues = 1 \<and> core_occupation_value eigenvalues = Inr 1 \<longrightarrow>
        spinfctr eigenvalues 1 = Inr 2 \<and>
        perform_bandfill_corr resolution eigenvalues kpoint_weights palign vbm0 cbm0 =
          Inr (bandfill_accumulate resolution 2 1 eigenvalues kpoint_weights palign vbm0 cbm0))
   \<and> (length eigenvalues = 2 \<and> core_occupation_value eigenvalues = Inr core \<longrightarrow>
        spinfctr eigenvalues core = Inr 1 \<and>
        perform_bandfill_corr resolution eigenvalues kpoint_weights palign vbm0 cbm0 =
          Inr (bandfill_accumulate resolution 1 core eigenvalues kpoint_weights palign vbm0 cbm0))"
proof (intro conjI impI)
  assume "2 < length eigenvalues"
  then have "spinfctr eigenvalues c = Inl ValueError" for c
    by (simp add: spinfctr_def)
  then show "\<exists>e. perform_bandfill_corr resolution eigenvalues kpoint_weights palign vbm0 cbm0 = Inl e"
    by (cases "core_occupation_value eigenvalues") (simp_all add: perform_bandfill_corr_def)
next
  assume a: "length eigenvalues = 1 \<and> core_occupation_value eigenvalues = Inr 1"
  then show "spinfctr eigenvalues 1 = Inr 2" by (simp add: spinfctr_def)
  then show "perform_bandfill_corr resolution eigenvalues kpoint_weights palign vbm0 cbm0 =
          Inr (bandfill_accumulate resolution 2 1 eigenvalues kpoint_weights palign vbm0 cbm0)"
    using a by (simp add: perform_bandfill_corr_def)
next
  assume a: "length eigenvalues = 2 \<and> core_occupation_value eigenvalues = Inr core"
  then show "spinfctr eigenvalues core = Inr 1" by (simp add: spinfctr_def)
  then show "perform_bandfill_corr resolution eigenvalues kpoint_weights palign vbm0 cbm0 =
          Inr (bandfill_accumulate resolution 1 core eigenvalues kpoint_weights palign vbm0 cbm0)"
    using a by (simp add: perform_bandfill_corr_def)
qed

text \<open>
  Three spin keys raise \<^verbatim>\<open>ValueError\<close>. One channel with an electron of weight 1 one
  electron volt above the conduction band edge: the factor 2 doubles the count and the
  penalty. The same state in each of two channels: the factor is 1.
\<close>

theorem bandfilling_spin_channels_witness:
  "perform_bandfill_corr (1 / 100)
      [(0 :: int, [[(- 5, 1), (6, 1)]]), (1, [[(- 5, 1)]]), (2, [[(- 5, 1)]])] [1] 0 0 5
     = Inl ValueError
   \<and> perform_bandfill_corr (1 / 100) [(0 :: int, [[(- 5, 1), (6, 1)]])] [1] 0 0 5
     = Inr (- 2, \<lparr>bf_num_hole_vbm = 0, bf_num_elec_cbm = 2, bf_potalign = 0\<rparr>)
   \<and> perform_bandfill_corr (1 / 100)
        [(1 :: int, [[(- 5, 1), (6, 1)]]), (- 1, [[(- 5, 1), (6, 1)]])] [1] 0 0 5
     = Inr (- 2, \<lparr>bf_num_hole_vbm = 0, bf_num_elec_cbm = 2, bf_potalign = 0\<rparr>)"
proof (intro conjI)
  let ?three = "[(0 :: int, [[(- 5, 1), (6, 1)]]), (1, [[(- 5, 1)]]), (2, [[(- 5 :: real, 1 :: real)]])]"
  have "\<exists>e. perform_bandfill_corr (1 / 100) ?three [1] 0 0 5 = Inl e"
    using bandfilling_spin_channels [of ?three "1 / 100" "[1]" 0 0 5 1] by simp
  then show "perform_bandfill_corr (1 / 100) ?three [1] 0 0 5 = Inl ValueError"
    by (simp add: perform_bandfill_corr_def core_occupation_value_def nth_or_raise_def
        spinfctr_def)
next
  let ?one = "[(0 :: int, [[(- 5 :: real, 1 :: real), (6, 1)]])]"
  have "perform_bandfill_corr (1 / 100) ?one [1] 0 0 5 =
          Inr (bandfill_accumulate (1 / 100) 2 1 ?one [1] 0 0 5)"
    using bandfilling_spin_channels [of ?one "1 / 100" "[1]" 0 0 5 1]
    by (simp add: core_occupation_value_def nth_or_raise_def)
  then show "perform_bandfill_corr (1 / 100) ?one [1] 0 0 5
     = Inr (- 2, \<lparr>bf_num_hole_vbm = 0, bf_num_elec_cbm = 2, bf_potalign = 0\<rparr>)"
    by (simp add: bandfill_accumulate_def bandfill_spinset_def bandfill_kptset_def)
next
  let ?two = "[(1 :: int, [[(- 5 :: real, 1 :: real), (6, 1)]]), (- 1, [[(- 5, 1), (6, 1)]])]"
  have "perform_bandfill_corr (1 / 100) ?two [1] 0 0 5 =
          Inr (bandfill_accumulate (1 / 100) 1 1 ?two [1] 0 0 5)"
    using bandfilling_spin_channels [of ?two "1 / 100" "[1]" 0 0 5 1]
    by (simp add: core_occupation_value_def nth_or_raise_def)
  then show "perform_bandfill_corr (1 / 100) ?two [1] 0 0 5
     = Inr (- 2, \<lparr>bf_num_hole_vbm = 0, bf_num_elec_cbm = 2, bf_potalign = 0\<rparr>)"
    by (simp add: bandfill_accumulate_def bandfill_spinset_def bandfill_kptset_def)
qed

section \<open>Kumagai potential alignment\<close>

lemma kumagai_site_loop:
  "mapE (site_model_potential num ut dielectric S dfc q r_vecs g_vecs gamma ps) (map fst site_list)
     = Inr pots
   \<Longrightarrow> foldE (kumagai_site_step num ut dielectric S dfc R q r_vecs g_vecs gamma ps) site_list (pd, fc)
       = Inr (pot_dict_of (zip site_list pots) pd, fc @ sampled_residuals R (zip site_list pots))"
proof (induction site_list arbitrary: pots pd fc)
  case Nil
  then show ?case by (simp add: pot_dict_of_def sampled_residuals_def)
next
  case (Cons sv site_list)
  from Cons.prems obtain p ps' where
    p: "site_model_potential num ut dielectric S dfc q r_vecs g_vecs gamma ps (fst sv) = Inr p"
    and ps': "mapE (site_model_potential num ut dielectric S dfc q r_vecs g_vecs gamma ps)
                (map fst site_list) = Inr ps'"
    and pots: "pots = p # ps'"
    by (auto simp: bindE_Inr_iff)
  obtain d vpc idx where pd: "p = (d, vpc, idx)" by (cases p)
  show ?case
    using Cons.IH [OF ps'] p
    by (simp add: pots pd kumagai_site_step_def pot_dict_of_def sampled_residuals_def)
qed

lemma kumagai_perform_pot_corr_value:
  "kumagai_perform_pot_corr num ut dielectric S dfc site_list R q r_vecs g_vecs gamma
     = Inr (pot_corr, pot_alignment, rest) \<Longrightarrow> pot_corr = - of_int q * pot_alignment"
  by (auto simp: kumagai_perform_pot_corr_def bindE_Inr_iff Let_def split: prod.splits)

text \<open>
  With the potential shift and the model potentials of all sites computed:
  \<^verbatim>\<open>perform_pot_corr\<close> samples the sites whose distance to the defect strictly exceeds
  the sampling radius, each with its raw potential difference minus the model potential,
  and passes the sample to \<^verbatim>\<open>stats.describe\<close>; when that returns, the alignment constant
  is the one assigned at lines 561 to 566 and the correction is minus the charge times
  it.
\<close>

lemma kumagai_perform_pot_corr_sampled:
  assumes "get_potential_shift gamma (volume (struct_lattice S)) = Inr ps"
    and "mapE (site_model_potential num ut dielectric S dfc q r_vecs g_vecs gamma ps)
           (map fst site_list) = Inr pots"
  shows "kumagai_perform_pot_corr num ut dielectric S dfc site_list R q r_vecs g_vecs gamma =
           bindE (describe (map Fin (sampled_residuals R (zip site_list pots)))) (\<lambda>st.
             Inr (- of_int q * kumagai_pot_alignment (sampled_residuals R (zip site_list pots)),
                  kumagai_pot_alignment (sampled_residuals R (zip site_list pots)),
                  st, length (sampled_residuals R (zip site_list pots)),
                  pot_dict_of (zip site_list pots) Map.empty))"
  using assms(1) kumagai_site_loop [OF assms(2), of R Map.empty "[]"]
  by (simp add: kumagai_perform_pot_corr_def Let_def)

lemma sampled_residuals_none:
  assumes "\<forall>p \<in> set pots. fst p \<le> R"
  shows "sampled_residuals R (zip site_list pots) = []"
proof -
  have "\<not> fst (snd z) > R" if "z \<in> set (zip site_list pots)" for z
    using assms set_zip_rightD [of "fst z" "snd z" site_list pots] that by fastforce
  then have "filter (\<lambda>(sv, (d, vpc, idx)). d > R) (zip site_list pots) = []"
    by (auto simp: filter_empty_conv)
  then show ?thesis by (simp add: sampled_residuals_def)
qed

text \<open>
  Claim C4, where no site qualifies. When the distance of every site to the defect is at
  most the sampling radius, lines 561 to 566 assign the alignment constant 0 without
  dividing, and line 573 then passes the empty sample to \<^verbatim>\<open>stats.describe\<close>, which
  raises \<^verbatim>\<open>ValueError\<close>: \<^verbatim>\<open>perform_pot_corr\<close> returns neither the constant 0 nor a
  correction.
\<close>

theorem kumagai_no_sample_raises:
  assumes "get_potential_shift gamma (volume (struct_lattice S)) = Inr ps"
    and "mapE (site_model_potential num ut dielectric S dfc q r_vecs g_vecs gamma ps)
           (map fst site_list) = Inr pots"
    and "\<forall>p \<in> set pots. fst p \<le> R"
  shows "kumagai_perform_pot_corr num ut dielectric S dfc site_list R q r_vecs g_vecs gamma
           = Inl ValueError"
  unfolding kumagai_perform_pot_corr_sampled [OF assms(1,2)] sampled_residuals_none [OF assms(3)]
  by (simp add: describe_def)

lemma sqrt_quarter: "sqrt (1 / 4) = 1 / 2"
  by (simp add: real_sqrt_divide)

lemma sqrt_below_two: "\<not> 2 < sqrt 2" "\<not> 2 < sqrt 3"
proof -
  have "sqrt 2 < 2" "sqrt 3 < 2"
    by (rule real_less_lsqrt; simp)+
  then show "\<not> 2 < sqrt 2" "\<not> 2 < sqrt 3" by simp_all
qed

lemma cubic_kumagai_fields:
  "kumagai_dielectric cubic_kumagai = ((10, 0, 0), (0, 10, 0), (0, 0, 10))"
  "init_gamma cubic_kumagai = None" "init_sampling_radius cubic_kumagai = None"
  by (simp_all add: cubic_kumagai_def KumagaiCorrection_init_def)

lemma cubic_structure_fields:
  "struct_lattice cubic_structure = cubic_lattice"
  "sites cubic_structure =
     [\<lparr>species = 1, frac_coords = (1 / 4, 0, 0)\<rparr>,
      \<lparr>species = 1, frac_coords = (1 / 2, 1 / 2, 0)\<rparr>,
      \<lparr>species = 2, frac_coords = (1 / 2, 1 / 2, 1 / 2)\<rparr>]"
  by (simp_all add: cubic_structure_def)

lemma cubic_site_potentials:
  "mapE (site_model_potential simple_numerics ut ((10, 0, 0), (0, 10, 0), (0, 0, 10))
           cubic_structure (0, 0, 0) q [] [] (1 / 2) (- 1 / 8)) (sites cubic_structure)
   = Inr [(1 / 2, - (1 / 8) * kumagai_to_V ut * of_int q, 0),
          (sqrt 2, - (1 / 8) * kumagai_to_V ut * of_int q, 1),
          (sqrt 3, - (1 / 8) * kumagai_to_V ut * of_int q, 2)]"
  by (simp add: site_model_potential_def cubic_structure_def cubic_lattice_def norm3_def
      get_real_summation_def get_recip_summation_def sqrt_quarter)

lemma cubic_potential_shift: "get_potential_shift (1 / 2) (volume cubic_lattice) = Inr (- 1 / 8)"
  by (simp add: get_potential_shift_def cubic_lattice_def power2_eq_square)

text \<open>
  In the concrete setting the three atoms are at the distances 1/2, \<open>\<surd>2\<close> and \<open>\<surd>3\<close>
  from the defect. With the sampling radius 2 no atom is sampled and the potential
  alignment of charge 1 ends with \<^verbatim>\<open>ValueError\<close>.
\<close>

theorem kumagai_no_sample_raises_witness:
  "kumagai_perform_pot_corr simple_numerics simple_utils ((10, 0, 0), (0, 10, 0), (0, 0, 10))
      cubic_structure (0, 0, 0) cubic_site_list 2 1 [] [] (1 / 2)
     = Inl ValueError"
proof -
  have pots: "mapE (site_model_potential simple_numerics simple_utils
                 ((10, 0, 0), (0, 10, 0), (0, 0, 10)) cubic_structure (0, 0, 0) 1 [] [] (1 / 2)
                 (- 1 / 8)) (map fst cubic_site_list)
        = Inr [(1 / 2, - (1809512739 / 80000000), 0), (sqrt 2, - (1809512739 / 80000000), 1),
               (sqrt 3, - (1809512739 / 80000000), 2)]"
    using cubic_site_potentials [of simple_utils 1]
    by (simp add: cubic_structure_fields simple_utils_def cubic_site_list_def)
  have shift: "get_potential_shift (1 / 2) (volume (struct_lattice cubic_structure)) = Inr (- 1 / 8)"
    by (simp add: cubic_structure_fields cubic_potential_shift)
  have far: "\<forall>p \<in> set [(1 / 2, - (1809512739 / 80000000), 0 :: nat),
                          (sqrt 2, - (1809512739 / 80000000), 1),
                          (sqrt 3, - (1809512739 / 80000000), 2)]. fst p \<le> (2 :: real)"
    using sqrt_below_two by (simp add: not_less)
  show ?thesis
    by (rule kumagai_no_sample_raises [OF shift pots far])
qed

section \<open>Kumagai correction on the concrete setting\<close>

lemma cubic_kumagai_pot:
  "\<exists>st pd.
     kumagai_perform_pot_corr simple_numerics ut ((10, 0, 0), (0, 10, 0), (0, 0, 10))
       cubic_structure (0, 0, 0) cubic_site_list 1 q [] []
       (1 / 2)
     = Inr (- of_int q * (1 / 4 + kumagai_to_V ut * of_int q / 8),
            1 / 4 + kumagai_to_V ut * of_int q / 8, st, 2, pd)"
proof -
  have pots: "mapE (site_model_potential simple_numerics ut ((10, 0, 0), (0, 10, 0), (0, 0, 10))
                 cubic_structure (0, 0, 0) q [] [] (1 / 2) (- 1 / 8))
                (map fst cubic_site_list)
        = Inr [(1 / 2, - (1 / 8) * kumagai_to_V ut * of_int q, 0),
               (sqrt 2, - (1 / 8) * kumagai_to_V ut * of_int q, 1),
               (sqrt 3, - (1 / 8) * kumagai_to_V ut * of_int q, 2)]"
    using cubic_site_potentials [of ut q] by (simp add: cubic_structure_fields cubic_site_list_def)
  have sr: "sampled_residuals 1
              (zip cubic_site_list
                 [(1 / 2, - (1 / 8) * kumagai_to_V ut * of_int q, 0),
                  (sqrt 2, - (1 / 8) * kumagai_to_V ut * of_int q, 1),
                  (sqrt 3, - (1 / 8) * kumagai_to_V ut * of_int q, 2)])
            = [1 / 5 + kumagai_to_V ut * of_int q / 8, 3 / 10 + kumagai_to_V ut * of_int q / 8]"
    by (simp add: sampled_residuals_def cubic_structure_fields cubic_site_list_def)
  have shift: "get_potential_shift (1 / 2) (volume (struct_lattice cubic_structure)) = Inr (- 1 / 8)"
    by (simp add: cubic_structure_fields cubic_potential_shift)
  have loop: "foldE (kumagai_site_step simple_numerics ut ((10, 0, 0), (0, 10, 0), (0, 0, 10))
                 cubic_structure (0, 0, 0) 1 q [] [] (1 / 2) (- 1 / 8))
               cubic_site_list (Map.empty, [])
        = Inr (pot_dict_of
                 (zip cubic_site_list
                    [(1 / 2, - (1 / 8) * kumagai_to_V ut * of_int q, 0),
                     (sqrt 2, - (1 / 8) * kumagai_to_V ut * of_int q, 1),
                     (sqrt 3, - (1 / 8) * kumagai_to_V ut * of_int q, 2)]) Map.empty,
               [1 / 5 + kumagai_to_V ut * of_int q / 8, 3 / 10 + kumagai_to_V ut * of_int q / 8])"
    using kumagai_site_loop [OF pots, of 1 Map.empty "[]"] by (simp only: sr append_Nil)
  show ?thesis
    unfolding kumagai_perform_pot_corr_def shift bindE_Inr loop prod.case
    by (simp add: kumagai_pot_alignment_def describe_def Let_def field_simps)
qed

lemma cubic_site_entries:
  "mapE (kumagai_site_entry cubic_structure cubic_bulk_site_average cubic_defect_site_average)
     cubic_matching
   = Inr cubic_site_list"
  by (simp add: kumagai_site_entry_def nth_or_raise_def cubic_structure_fields
      cubic_bulk_site_average_def cubic_defect_site_average_def cubic_matching_def
      cubic_site_list_def)

lemma cubic_wigner_seitz_radius: "wigner_seitz_radius cubic_lattice = Inr 1"
  by (simp add: wigner_seitz_radius_def cubic_lattice_def mean3_def norm3_def)

lemma cubic_kumagai_get_correction:
  assumes "tune_for_gamma ut cubic_lattice ((10, 0, 0), (0, 10, 0), (0, 0, 10)) = 1 / 2"
    and "kumagai_summation ut ((10, 0, 0), (0, 10, 0), (0, 0, 10)) cubic_lattice (1 / 2)
           = Inr (es0, [[], []], [[], []])"
  shows "correction_summary (kumagai_get_correction simple_numerics ut cubic_kumagai (cubic_entry q))
     = Inr (kumagai_es_corr ut es0 q,
            - of_int q * (1 / 4 + kumagai_to_V ut * of_int q / 8),
            Some (Fin (if q \<noteq> 0
                       then - of_int q * (1 / 4 + kumagai_to_V ut * of_int q / 8) / (- of_int q)
                       else 0)))"
proof -
  obtain st pd where pot:
    "kumagai_perform_pot_corr simple_numerics ut ((10, 0, 0), (0, 10, 0), (0, 0, 10))
       cubic_structure (0, 0, 0) cubic_site_list 1 q [] []
       (1 / 2)
     = Inr (- of_int q * (1 / 4 + kumagai_to_V ut * of_int q / 8),
            1 / 4 + kumagai_to_V ut * of_int q / 8, st, 2, pd)"
    using cubic_kumagai_pot by blast
  show ?thesis
    unfolding kumagai_get_correction_def correction_summary_def
    by (simp add: cubic_entry_def no_parameters_def lookup_param_def cubic_kumagai_fields
        cubic_structure_fields(1) assms cubic_wigner_seitz_radius cubic_site_entries
        nth_or_raise_def pot)
qed


lemma diverging_summation:
  "kumagai_summation diverging_utils ((10, 0, 0), (0, 10, 0), (0, 0, 10)) cubic_lattice (1 / 2)
     = Inr (- 1 / 8 - (1 / 2) / (2 * pi * sqrt (pi * 1000)), [[], []], [[], []])"
  by (simp add: kumagai_summation_def diverging_utils_def simple_utils_def cubic_lattice_def
      get_potential_shift_def get_self_interaction_def es_corr_pair_def nth_or_raise_def
      power2_eq_square)

lemma late_converging_summation:
  "kumagai_summation late_converging_utils ((10, 0, 0), (0, 10, 0), (0, 0, 10)) cubic_lattice (1 / 2)
     = Inl ValueError"
  by (simp add: kumagai_summation_def late_converging_utils_def simple_utils_def cubic_lattice_def
      get_potential_shift_def get_self_interaction_def es_corr_pair_def nth_or_raise_def
      power2_eq_square)

text \<open>
  Claim C2, evaluated. The summations of \<open>diverging_utils\<close> differ by 1 at every
  precision pair, so at \<open>[25, 28]\<close> and still at \<open>[30, 35]\<close>: the correction is
  returned and nothing is raised. The summations of \<open>late_converging_utils\<close> differ by 1
  at the first pair and agree at the second: \<^verbatim>\<open>ValueError\<close> is raised. The check after
  the escalation compares with \<open><\<close> where the message it raises ("still not converged")
  calls for \<open>>\<close>.
\<close>

theorem kumagai_escalation_check_inverted:
  "generate_R_and_G_vecs diverging_utils (1 / 2) [30, 35] cubic_lattice
       ((10, 0, 0), (0, 10, 0), (0, 0, 10)) = ([[], []], [0, 0], [[], []], [0, 1])
   \<and> (\<exists>es pa. correction_summary
          (kumagai_get_correction simple_numerics diverging_utils cubic_kumagai (cubic_entry 1))
        = Inr (es, pa, Some (Fin (1 / 4 + 1809512739 / 80000000))))
   \<and> generate_R_and_G_vecs late_converging_utils (1 / 2) [25, 28] cubic_lattice
       ((10, 0, 0), (0, 10, 0), (0, 0, 10)) = ([[], []], [0, 0], [[], []], [0, 1])
   \<and> generate_R_and_G_vecs late_converging_utils (1 / 2) [30, 35] cubic_lattice
       ((10, 0, 0), (0, 10, 0), (0, 0, 10)) = ([[], []], [0, 0], [[], []], [0, 0])
   \<and> kumagai_get_correction simple_numerics late_converging_utils cubic_kumagai (cubic_entry 1)
        = Inl ValueError"
proof (intro conjI)
  show "generate_R_and_G_vecs late_converging_utils (1 / 2) [25, 28] cubic_lattice
       ((10, 0, 0), (0, 10, 0), (0, 0, 10)) = ([[], []], [0, 0], [[], []], [0, 1])"
    by (simp add: late_converging_utils_def)
  show "generate_R_and_G_vecs diverging_utils (1 / 2) [30, 35] cubic_lattice
       ((10, 0, 0), (0, 10, 0), (0, 0, 10)) = ([[], []], [0, 0], [[], []], [0, 1])"
    by (simp add: diverging_utils_def)
  show "generate_R_and_G_vecs late_converging_utils (1 / 2) [30, 35] cubic_lattice
       ((10, 0, 0), (0, 10, 0), (0, 0, 10)) = ([[], []], [0, 0], [[], []], [0, 0])"
    by (simp add: late_converging_utils_def)
  have "tune_for_gamma diverging_utils cubic_lattice ((10, 0, 0), (0, 10, 0), (0, 0, 10)) = 1 / 2"
    by (simp add: diverging_utils_def simple_utils_def)
  from cubic_kumagai_get_correction [OF this diverging_summation, of 1]
  show "\<exists>es pa. correction_summary
          (kumagai_get_correction simple_numerics diverging_utils cubic_kumagai (cubic_entry 1))
        = Inr (es, pa, Some (Fin (1 / 4 + 1809512739 / 80000000)))"
    by (simp add: diverging_utils_def simple_utils_def)
  have tg: "tune_for_gamma late_converging_utils cubic_lattice
              ((10, 0, 0), (0, 10, 0), (0, 0, 10)) = 1 / 2"
    by (simp add: late_converging_utils_def simple_utils_def)
  show "kumagai_get_correction simple_numerics late_converging_utils cubic_kumagai
          (cubic_entry 1) = Inl ValueError"
    unfolding kumagai_get_correction_def
    by (simp add: cubic_entry_def no_parameters_def lookup_param_def cubic_kumagai_fields
        cubic_structure_fields(1) tg late_converging_summation)
qed

section \<open>The discrete Fourier transform of a real sequence\<close>

lemma Im_sum_list: "Im (sum_list zs) = sum_list (map Im zs)"
  by (induction zs) simp_all

lemma sum_list_neg: "(\<Sum>x\<leftarrow>xs. - f x) = - (\<Sum>x\<leftarrow>xs. (f x :: real))"
  by (induction xs) simp_all

lemma length_dft: "length (dft xs) = length xs"
  by (simp add: dft_def)

lemma Im_dft_real:
  assumes "k < length rs"
  shows "Im (dft (map complex_of_real rs) ! k) =
         (\<Sum>j\<leftarrow>[0..<length rs]. rs ! j * sin (- 2 * pi * real k * real j / real (length rs)))"
proof -
  have "Im (dft (map complex_of_real rs) ! k) =
        (\<Sum>j\<leftarrow>[0..<length rs]. Im (map complex_of_real rs ! j
            * cis (- 2 * pi * real k * real j / real (length rs))))"
    using assms by (simp add: dft_def Im_sum_list comp_def)
  also have "\<dots> = (\<Sum>j\<leftarrow>[0..<length rs]. rs ! j * sin (- 2 * pi * real k * real j / real (length rs)))"
    by (rule arg_cong [where f = sum_list], rule map_cong) simp_all
  finally show ?thesis .
qed

lemma sin_mirror:
  assumes "k < n"
  shows "sin (- 2 * pi * real (n - k) * real j / real n) = - sin (- 2 * pi * real k * real j / real n)"
proof -
  have n: "real n \<noteq> 0" using assms by simp
  have "- 2 * pi * real (n - k) * real j / real n = 2 * pi * real k * real j / real n - 2 * real j * pi"
    using assms n by (simp add: of_nat_diff field_simps)
  then have "sin (- 2 * pi * real (n - k) * real j / real n) =
             sin (2 * pi * real k * real j / real n - 2 * real j * pi)" by simp
  also have "\<dots> = sin (2 * pi * real k * real j / real n)"
    by (simp add: sin_diff sin_2npi cos_2npi)
  also have "\<dots> = - sin (- (2 * pi * real k * real j / real n))"
    by (simp only: sin_minus minus_minus)
  also have "- (2 * pi * real k * real j / real n) = - 2 * pi * real k * real j / real n"
    by simp
  finally show ?thesis .
qed

text \<open>
  The transform of a real sequence is conjugate symmetric: every imaginary part occurs
  with both signs.
\<close>

lemma Im_dft_mirror:
  assumes "k < length rs"
  shows "\<exists>k' < length rs. Im (dft (map complex_of_real rs) ! k') = - Im (dft (map complex_of_real rs) ! k)"
proof (cases "k = 0")
  case True
  have "Im (dft (map complex_of_real rs) ! 0) = 0"
    using assms True by (simp add: Im_dft_real)
  then show ?thesis using assms True by auto
next
  case False
  let ?n = "length rs"
  have lt: "?n - k < ?n" using assms False by simp
  have "Im (dft (map complex_of_real rs) ! (?n - k)) =
        (\<Sum>j\<leftarrow>[0..<?n]. rs ! j * sin (- 2 * pi * real (?n - k) * real j / real ?n))"
    by (rule Im_dft_real [OF lt])
  also have "\<dots> = (\<Sum>j\<leftarrow>[0..<?n]. - (rs ! j * sin (- 2 * pi * real k * real j / real ?n)))"
    by (simp only: sin_mirror [OF assms] mult_minus_right)
  also have "\<dots> = - (\<Sum>j\<leftarrow>[0..<?n]. rs ! j * sin (- 2 * pi * real k * real j / real ?n))"
    by (rule sum_list_neg)
  also have "\<dots> = - Im (dft (map complex_of_real rs) ! k)"
    by (simp add: Im_dft_real [OF assms])
  finally show ?thesis using lt by blast
qed

text \<open>
  Hence the largest imaginary part is the largest absolute imaginary part, and
  \<^verbatim>\<open>abs(np.imag(v_R).max())\<close> exceeds a bound exactly when some component does in
  absolute value.
\<close>

lemma abs_Max_Im_dft:
  assumes "rs \<noteq> []"
  shows "(\<bar>Max (set (map Im (dft (map complex_of_real rs))))\<bar> > tol) \<longleftrightarrow>
         (\<exists>c \<in> set (dft (map complex_of_real rs)). \<bar>Im c\<bar> > tol)"
proof -
  let ?v = "dft (map complex_of_real rs)"
  let ?S = "set (map Im ?v)"
  have len: "length ?v = length rs" by (simp add: length_dft)
  have fin: "finite ?S" by simp
  have ne: "?S \<noteq> {}" using assms len by (cases ?v) auto
  have bound: "\<bar>Im c\<bar> \<le> Max ?S" if c: "c \<in> set ?v" for c
  proof -
    from c obtain k where k: "k < length rs" and ck: "c = ?v ! k"
      using len by (metis in_set_conv_nth)
    obtain k' where k': "k' < length rs" and m: "Im (?v ! k') = - Im (?v ! k)"
      using Im_dft_mirror [OF k] by blast
    have "Im (?v ! k) \<in> ?S" using k len by simp
    then have 1: "Im c \<le> Max ?S" using ck fin by (simp add: Max_ge)
    have "Im (?v ! k') \<in> ?S" using k' len by simp
    then have 2: "- Im c \<le> Max ?S" using ck m fin by (metis Max_ge)
    show ?thesis using 1 2 by linarith
  qed
  have "Max ?S \<in> ?S" using fin ne by (rule Max_in)
  then obtain c0 where c0: "c0 \<in> set ?v" and mc0: "Max ?S = Im c0" by auto
  show ?thesis
  proof
    assume "\<bar>Max ?S\<bar> > tol"
    then have "\<bar>Im c0\<bar> > tol" using mc0 by simp
    then show "\<exists>c \<in> set ?v. \<bar>Im c\<bar> > tol" using c0 by blast
  next
    assume "\<exists>c \<in> set ?v. \<bar>Im c\<bar> > tol"
    then obtain c where c: "c \<in> set ?v" and gt: "\<bar>Im c\<bar> > tol" by blast
    have "\<bar>Im c\<bar> \<le> Max ?S" using bound [OF c] .
    then show "\<bar>Max ?S\<bar> > tol" using gt by linarith
  qed
qed

text \<open>
  The transform of a real sequence that reads the same from its second entry forwards
  and from its last entry backwards is real.
\<close>

lemma dft_even_real:
  assumes sym: "\<And>j. 0 < j \<Longrightarrow> j < length rs \<Longrightarrow> rs ! (length rs - j) = rs ! j"
    and k: "k < length rs"
  shows "Im (dft (map complex_of_real rs) ! k) = 0"
proof -
  let ?n = "length rs"
  define f where "f j = rs ! j * sin (- 2 * pi * real k * real j / real ?n)" for j
  have n: "0 < ?n" using k by (cases rs) auto
  have "Im (dft (map complex_of_real rs) ! k) = (\<Sum>j\<leftarrow>[0..<?n]. f j)"
    unfolding f_def by (rule Im_dft_real [OF k])
  also have "\<dots> = sum f {0..<?n}"
    by (simp add: interv_sum_list_conv_sum_set_nat)
  also have "\<dots> = f 0 + sum f {1..<?n}"
    using n by (simp add: sum.atLeast_Suc_lessThan)
  also have "f 0 = 0" by (simp add: f_def)
  finally have S: "Im (dft (map complex_of_real rs) ! k) = sum f {1..<?n}" by simp
  have mir: "f (?n - j) = - f j" if "j \<in> {1..<?n}" for j
  proof -
    have j: "0 < j" "j < ?n" using that by auto
    have a: "- 2 * pi * real k * real (?n - j) / real ?n
               = - 2 * pi * real (?n - j) * real k / real ?n"
      by simp
    have b: "- 2 * pi * real j * real k / real ?n = - 2 * pi * real k * real j / real ?n"
      by simp
    have "sin (- 2 * pi * real k * real (?n - j) / real ?n)
            = - sin (- 2 * pi * real k * real j / real ?n)"
      by (simp only: a sin_mirror [OF j(2)] b)
    then show ?thesis
      unfolding f_def using sym [OF j] by simp
  qed
  have "sum f {1..<?n} = sum (\<lambda>j. f (?n - j)) {1..<?n}"
    by (rule sum.reindex_bij_witness [of _ "\<lambda>j. ?n - j" "\<lambda>j. ?n - j"]) auto
  also have "\<dots> = sum (\<lambda>j. - f j) {1..<?n}"
    by (rule sum.cong) (simp_all add: mir)
  also have "\<dots> = - sum f {1..<?n}"
    by (simp add: sum_negf)
  finally have "sum f {1..<?n} = 0" by simp
  then show ?thesis using S by simp
qed

section \<open>Floats of numpy\<close>

lemma fl_max_fold_Fin:
  "fold (\<lambda>x m. if fl_less m x then x else m) (map Fin xs) (Fin a) = Fin (fold max xs a)"
  by (induction xs arbitrary: a) (auto simp: max_def)

lemma np_max_Fin:
  assumes "xs \<noteq> []"
  shows "np_max (map Fin xs) = Fin (Max (set xs))"
proof -
  obtain a as where xs: "xs = a # as" using assms by (cases xs) auto
  have "NaN \<notin> set (map Fin xs)" by auto
  then show ?thesis
    unfolding np_max_def xs
    by (simp add: fl_max_fold_Fin Max.set_eq_fold del: set_simps)
qed

lemma np_cdiv_real_Fin:
  "d \<noteq> 0 \<Longrightarrow> np_cdiv_real (Fin a, Fin b) d = (Fin (a / d), Fin (b / d))"
  by (simp add: np_cdiv_real_def fl_sub_def divide_inverse)

lemma list_all_is_Fin: "list_all is_Fin (map Fin xs)"
  by (induction xs) simp_all

lemma np_fft_Fin:
  "np_fft num (map Fin xs) = map (\<lambda>c. (Fin (Re c), Fin (Im c))) (dft (map complex_of_real xs))"
  by (simp add: np_fft_def list_all_is_Fin comp_def)

lemma fl_mul_zero: "fl_mul (Fin 0) C = Fin 0 \<or> fl_mul (Fin 0) C = NaN"
  by (cases C) (simp_all add: fl_scale_inf_def)


lemma fl_add_zero_nan:
  "a = Fin 0 \<or> a = NaN \<Longrightarrow> x = Fin 0 \<or> x = NaN \<Longrightarrow> fl_add a x = Fin 0 \<or> fl_add a x = NaN"
  by auto

lemma np_sum_zero_nan:
  assumes "\<forall>x \<in> set xs. x = Fin 0 \<or> x = NaN"
  shows "np_sum xs = Fin 0 \<or> np_sum xs = NaN"
proof -
  have "a = Fin 0 \<or> a = NaN \<Longrightarrow>
        fold (\<lambda>x acc. fl_add acc x) xs a = Fin 0 \<or> fold (\<lambda>x acc. fl_add acc x) xs a = NaN" for a
    using assms
  proof (induction xs arbitrary: a)
    case Nil
    then show ?case by simp
  next
    case (Cons x xs)
    have "fl_add a x = Fin 0 \<or> fl_add a x = NaN"
      using Cons.prems by (intro fl_add_zero_nan) auto
    then show ?case using Cons.IH [of "fl_add a x"] Cons.prems(2) by simp
  qed
  then show ?thesis by (simp add: np_sum_def)
qed

lemma np_mean_zero_nan:
  assumes "\<forall>x \<in> set xs. x = Fin 0 \<or> x = NaN"
  shows "np_mean xs = Fin 0 \<or> np_mean xs = NaN"
  using np_sum_zero_nan [OF assms] by (auto simp: np_mean_def)

section \<open>Freysoldt potential alignment\<close>

lemma freysoldt_real_space_finite:
  assumes "v_G \<noteq> []" and "volume latt * ang_to_bohr ut ^ 3 \<noteq> 0"
  shows "freysoldt_real_space num ut self latt (map Fin v_G) =
           (if \<exists>c \<in> set (dft (map complex_of_real v_G)). \<bar>Im c\<bar> > madetol self
            then Inl ImaginaryPartException
            else Inr (map (\<lambda>c. Fin (Re c / (volume latt * ang_to_bohr ut ^ 3) * hart_to_ev ut))
                        (dft (map complex_of_real v_G))))"
proof -
  let ?v = "dft (map complex_of_real v_G)"
  have ne: "map Im ?v \<noteq> []" using assms(1) length_dft [of "map complex_of_real v_G"]
    by (metis length_0_conv length_map)
  have m: "np_max (map snd (np_fft num (map Fin v_G))) = Fin (Max (set (map Im ?v)))"
    using np_max_Fin [OF ne] by (simp add: np_fft_Fin comp_def)
  have chk: "fl_less (Fin (madetol self)) (fl_abs (np_max (map snd (np_fft num (map Fin v_G)))))
             \<longleftrightarrow> (\<exists>c \<in> set ?v. \<bar>Im c\<bar> > madetol self)"
    unfolding m using abs_Max_Im_dft [OF assms(1), of "madetol self"] by simp
  show ?thesis
    unfolding freysoldt_real_space_def Let_def chk
    using assms by (simp add: np_fft_Fin np_cdiv_real_Fin comp_def)
qed

lemma freysoldt_v_G_nonempty:
  "freysoldt_v_G ut self latt nx q ax = Inr v_G \<Longrightarrow> v_G \<noteq> []"
  by (auto simp: freysoldt_v_G_def bindE_Inr_iff Let_def simp del: list_update.simps
        split: if_splits dest!: arg_cong [where f = length])

lemma freysoldt_align_value:
  "freysoldt_align grid pureavg defavg q w v_R = Inr (pc, C, rest)
   \<Longrightarrow> pc = fl_mul (Fin (- of_int q)) C"
  by (auto simp: freysoldt_align_def bindE_Inr_iff Let_def split: prod.splits if_splits)

lemma freysoldt_perform_pot_corr_value:
  "freysoldt_perform_pot_corr num ut self grid pureavg defavg latt q dfp ax w = Inr (pc, C, rest)
   \<Longrightarrow> pc = fl_mul (Fin (- of_int q)) C"
  by (auto simp: freysoldt_perform_pot_corr_def bindE_Inr_iff split: prod.splits
      dest: freysoldt_align_value)


subsection \<open>Grids with an even number of points\<close>

text \<open>
  On a grid with an even number of points the rolled list of line 241 starts with 0
  and holds \<^verbatim>\<open>k\<close> at position \<^verbatim>\<open>k\<close> and \<^verbatim>\<open>k - nx\<close> past the middle, so the squares of line 242
  are mirrored around the middle, and so is \<^verbatim>\<open>v_G\<close>, whose middle entry line 245 sets to 0.
\<close>

lemma arange_g_nth:
  assumes "even nx" and "k < nx"
  shows "arange_g nx ! k = (if k < nx div 2 then int k else int k - int nx)"
proof -
  let ?xs = "map (\<lambda>i. - int (nx div 2) + int i) [0..<nx]"
  have h: "nx - nx div 2 mod nx = nx div 2"
    using assms by (cases "nx = 0") (auto elim!: evenE)
  have ne: "?xs \<noteq> []" using assms(2) by auto
  have "arange_g nx = rotate (length ?xs - nx div 2 mod length ?xs) ?xs"
    using ne by (simp only: arange_g_def np_roll_def if_False)
  also have "length ?xs - nx div 2 mod length ?xs = nx div 2"
    using h by simp
  finally have r: "arange_g nx = rotate (nx div 2) ?xs" .
  have "arange_g nx ! k = ?xs ! ((nx div 2 + k) mod nx)"
    unfolding r using assms(2) by (simp add: nth_rotate)
  also have "\<dots> = - int (nx div 2) + int ((nx div 2 + k) mod nx)"
    using assms(2) by simp
  also have "\<dots> = (if k < nx div 2 then int k else int k - int nx)"
  proof (cases "k < nx div 2")
    case True
    then have "nx div 2 + k < nx" using assms by (auto elim!: evenE)
    then show ?thesis using True by simp
  next
    case False
    then have "(nx div 2 + k) mod nx = nx div 2 + k - nx"
      using assms by (auto elim!: evenE simp: mod_if)
    moreover have "nx \<le> nx div 2 + k" using False assms by (auto elim!: evenE)
    ultimately show ?thesis using False by (simp add: of_nat_diff)
  qed
  finally show ?thesis .
qed

lemma arange_g_mirror:
  assumes "even nx" and "0 < k" and "k < nx"
  shows "(arange_g nx ! (nx - k))\<^sup>2 = (arange_g nx ! k)\<^sup>2"
proof -
  have lt: "nx - k < nx" using assms by simp
  show ?thesis
    unfolding arange_g_nth [OF assms(1) lt] arange_g_nth [OF assms(1,3)]
    using assms by (auto elim!: evenE simp: of_nat_diff power2_eq_square algebra_simps)
qed

lemma length_arange_g: "length (arange_g nx) = nx"
  by (simp add: arange_g_def np_roll_def)

lemma freysoldt_v_G_symmetric:
  assumes v: "freysoldt_v_G ut self latt nx q ax = Inr V"
    and ev: "even nx" and j: "0 < j" "j < nx"
  shows "length V = nx \<and> V ! (nx - j) = V ! j"
proof -
  obtain dg0 where dg0: "vec3_nth (reciprocal_abc latt) ax = Inr dg0"
    using v by (auto simp: freysoldt_v_G_def bindE_Inr_iff)
  define dg where "dg = dg0 / ang_to_bohr ut"
  define L where "L = map (\<lambda>x. x * x) (map (\<lambda>n. of_int n * dg) (arange_g nx))"
  define E where "E = freysoldt_v_G_entry (freysoldt_dielectric self) q (q_model self)"
  define v0 where "v0 = 4 * pi * - of_int q / freysoldt_dielectric self
                          * rho_rec_limit0 (q_model self)"
  define W where "W = Fin v0 # map E (tl L)"
  have V: "V = W[nx div 2 := Fin 0]"
    using v ev dg0 unfolding W_def E_def L_def dg_def v0_def
    by (auto simp: freysoldt_v_G_def Let_def simp del: list_update.simps map_map
          split: if_splits)
  have lenL: "length L = nx" by (simp add: L_def length_arange_g)
  have lenW: "length W = nx" using j lenL by (simp add: W_def)
  have Wn: "W ! i = E (L ! i)" if "0 < i" "i < nx" for i
  proof -
    from that(1) obtain i' where i': "i = Suc i'" by (cases i) auto
    have "tl L ! i' = L ! Suc i'" using that(2) lenL i' by (simp add: nth_tl)
    then show ?thesis using that lenL by (simp add: W_def i')
  qed
  have Ln: "L ! i = (of_int (arange_g nx ! i) * dg)\<^sup>2" if "i < nx" for i
    using that by (simp add: L_def length_arange_g power2_eq_square)
  have lt: "0 < nx - j" "nx - j < nx" using j by auto
  have "L ! (nx - j) = L ! j"
  proof -
    have "(real_of_int (arange_g nx ! (nx - j)))\<^sup>2 = (real_of_int (arange_g nx ! j))\<^sup>2"
      using arange_g_mirror [OF ev j] by (metis of_int_power)
    then show ?thesis
      unfolding Ln [OF lt(2)] Ln [OF j(2)] by (simp add: power_mult_distrib)
  qed
  then have W: "W ! (nx - j) = W ! j"
    using Wn [OF lt] Wn [OF j] by simp
  have mid: "nx div 2 = nx - j \<longleftrightarrow> nx div 2 = j"
    using ev j by (auto elim!: evenE)
  have mid': "nx - j = j" if "nx div 2 = j"
    using ev j that by (auto elim!: evenE)
  show ?thesis
    unfolding V using W mid mid' lenW lt j by (auto simp: nth_list_update)
qed

text \<open>
  Hence, whenever lines 239 to 245 build a finite \<^verbatim>\<open>v_G\<close> on such a grid, its exact
  transform has no imaginary part at all, and lines 247 to 252 raise only for a
  negative tolerance; the imaginary parts that the check of the program meets on these
  grids are the rounding errors of the floating-point transform, which the real numbers
  of this development do not have.
\<close>

lemma freysoldt_transform_real:
  assumes v: "freysoldt_v_G ut self latt nx q ax = Inr (map Fin v)" and ev: "even nx"
    and c: "c \<in> set (dft (map complex_of_real v))"
  shows "Im c = 0"
proof -
  have nx: "0 < nx" using v by (auto simp: freysoldt_v_G_def bindE_Inr_iff Let_def split: if_splits)
  have len: "length v = nx"
  proof (cases "nx = 1")
    case True
    then show ?thesis using ev by simp
  next
    case False
    then have "1 < nx" using nx by simp
    then show ?thesis using freysoldt_v_G_symmetric [OF v ev, of 1] by simp
  qed
  have sym: "v ! (length v - j) = v ! j" if "0 < j" "j < length v" for j
  proof -
    have "map Fin v ! (nx - j) = map Fin v ! j"
      using freysoldt_v_G_symmetric [OF v ev] that len by simp
    then show ?thesis using that len by simp
  qed
  obtain k where k: "k < length v" and ck: "c = dft (map complex_of_real v) ! k"
    using c by (metis in_set_conv_nth length_dft length_map)
  show ?thesis unfolding ck by (rule dft_even_real [OF sym k])
qed

lemma freysoldt_even_grid_real_space:
  assumes v: "freysoldt_v_G ut self latt nx q ax = Inr (map Fin v)" and ev: "even nx"
    and nz: "volume latt * ang_to_bohr ut ^ 3 \<noteq> 0"
  shows "freysoldt_real_space num ut self latt (map Fin v) =
           (if madetol self < 0 then Inl ImaginaryPartException
            else Inr (map (\<lambda>c. Fin (Re c / (volume latt * ang_to_bohr ut ^ 3) * hart_to_ev ut))
                        (dft (map complex_of_real v))))"
proof -
  let ?d = "dft (map complex_of_real v)"
  have ne: "v \<noteq> []" using freysoldt_v_G_nonempty [OF v] by simp
  have im: "Im c = 0" if "c \<in> set ?d" for c
    using that by (rule freysoldt_transform_real [OF v ev])
  have "?d \<noteq> []" using ne length_dft [of "map complex_of_real v"]
    by (metis length_0_conv length_map)
  then obtain c0 where c0: "c0 \<in> set ?d" by (cases ?d) auto
  have chk: "(\<exists>c \<in> set ?d. \<bar>Im c\<bar> > madetol self) \<longleftrightarrow> madetol self < 0"
    using im c0 by auto
  show ?thesis
    unfolding freysoldt_real_space_finite [OF ne nz] chk ..
qed

section \<open>Freysoldt correction on the concrete setting\<close>

lemma upt4: "[0..<4] = [0, 1, 2, 3]"
  by (simp add: upt_rec)

lemma upto13: "[1..3] = [1, 2, 3]"
  by (simp add: upto.simps)

lemma arange4: "arange_g 4 = [0, 1, - 2, - 1]"
  by (simp add: arange_g_def np_roll_def upt4 rotate_def)

lemma cis_quarter: "cis (- 2 * pi * real k * real j / 4) = (- \<i>) ^ (k * j)"
proof -
  have 1: "cis (- (pi / 2)) = - \<i>"
    by (simp add: cis.ctr complex_eq_iff)
  have "(cis (- (pi / 2))) ^ (k * j) = cis (real (k * j) * (- (pi / 2)))"
    by (rule DeMoivre)
  also have "real (k * j) * (- (pi / 2)) = - 2 * pi * real k * real j / 4"
    by simp
  finally show ?thesis by (simp only: 1)
qed

lemma dft4:
  "dft [a, b, c, d] =
     [a + b + c + d, a - \<i> * b - c + \<i> * d, a - b + c - d, a + \<i> * b - c - \<i> * d]"
proof -
  have len: "real (length [a, b, c, d]) = 4" by simp
  have p: "(- \<i>) ^ 2 = - 1" "(- \<i>) ^ 3 = \<i>" "(- \<i>) ^ 4 = 1" "(- \<i>) ^ 6 = - 1" "(- \<i>) ^ 9 = - \<i>"
    by (simp_all add: power2_eq_square power3_eq_cube eval_nat_numeral)
  show ?thesis
    unfolding dft_def len cis_quarter
    by (simp add: upt4 p algebra_simps)
qed

lemma cubic_freysoldt_fields:
  "freysoldt_dielectric cubic_freysoldt = 10" "q_model cubic_freysoldt = gaussian_qmodel"
  "madetol cubic_freysoldt = 1 / 10000" "energy_cutoff cubic_freysoldt = 520"
  "self_axis cubic_freysoldt = AxisNone"
  by (simp_all add: cubic_freysoldt_def FreysoldtCorrection_init_def)

lemma cubic_v_G:
  assumes "freysoldt_dielectric self = 10" and "q_model self = gaussian_qmodel" and "ax < 3"
  shows "freysoldt_v_G simple_utils self cubic_lattice (length cubic_grid) q ax
           = Inr (map Fin [cubic_v0 q, cubic_v1 q, 0, cubic_v1 q])"
proof -
  have ax: "ax = 0 \<or> ax = 1 \<or> ax = 2" using assms(3) by auto
  then have r: "vec3_nth (reciprocal_abc cubic_lattice) ax = Inr pi"
    by (auto simp: cubic_lattice_def)
  have len: "length cubic_grid = 4" by (simp add: cubic_grid_def)
  show ?thesis
    unfolding len
    by (simp add: freysoldt_v_G_def r assms(1,2) simple_utils_def arange4 gaussian_qmodel_def
        cubic_v0_def cubic_v1_def power2_eq_square freysoldt_v_G_entry_def)
qed

lemma cubic_scale: "volume cubic_lattice * ang_to_bohr simple_utils ^ 3 = 8 * (18897 / 10000) ^ 3"
  by (simp add: cubic_lattice_def simple_utils_def)

lemma cubic_real_space:
  assumes "0 \<le> madetol self"
  shows "freysoldt_real_space num simple_utils self cubic_lattice (map Fin [v0, v1, 0, v1])
     = Inr (map (\<lambda>r. Fin (r / (8 * (18897 / 10000) ^ 3) * (272114 / 10000)))
              [v0 + 2 * v1, v0, v0 - 2 * v1, v0])"
proof -
  have d: "dft (map complex_of_real [v0, v1, 0, v1])
             = map complex_of_real [v0 + 2 * v1, v0, v0 - 2 * v1, v0]"
    by (simp add: dft4 complex_eq_iff)
  have nz: "volume cubic_lattice * ang_to_bohr simple_utils ^ 3 \<noteq> 0"
    by (simp add: cubic_scale)
  have h: "hart_to_ev simple_utils = 272114 / 10000"
    by (simp add: simple_utils_def)
  have ne: "[v0, v1, 0, v1] \<noteq> []" by simp
  have chk: "\<not> (\<exists>c \<in> set (map complex_of_real [v0 + 2 * v1, v0, v0 - 2 * v1, v0]).
                 \<bar>Im c\<bar> > madetol self)"
    using assms by (simp add: not_less)
  show ?thesis
    unfolding freysoldt_real_space_finite [OF ne nz] d cubic_scale h
    by (simp only: chk if_False) simp
qed

lemma cubic_align:
  "\<exists>C pl un.
     freysoldt_align cubic_grid cubic_bulk_average cubic_defect_average q 1
       (map Fin [r0, r1, r2, r3])
     = Inr (Fin (- of_int q * C), Fin C, pl, un)"
  by (simp add: freysoldt_align_def cubic_grid_def cubic_bulk_average_def
      cubic_defect_average_def np_sub_def np_sub_fl_def nth_or_raise_def py_int_def
      py_index_def np_mean_def np_sum_def describe_def fl_sub_def Let_def upto13)

lemma cubic_perform_pot_corr:
  assumes "freysoldt_dielectric self = 10" and "q_model self = gaussian_qmodel" and "ax < 3"
    and "0 \<le> madetol self"
  shows "\<exists>C pl un.
     freysoldt_perform_pot_corr num simple_utils self cubic_grid cubic_bulk_average
       cubic_defect_average cubic_lattice q (0, 0, 0) ax 1
     = Inr (Fin (- of_int q * C), Fin C, pl, un)"
proof -
  have ax: "ax = 0 \<or> ax = 1 \<or> ax = 2" using assms(3) by auto
  then have bulk: "axbulkval_of cubic_lattice (0, 0, 0) ax = Inr 0"
    by (auto simp: axbulkval_of_def cubic_lattice_def)
  have sh: "shift_to_origin 0 cubic_grid cubic_bulk_average cubic_defect_average
              = Inr (cubic_bulk_average, cubic_defect_average)"
    by (simp add: shift_to_origin_def)
  show ?thesis
    unfolding freysoldt_perform_pot_corr_def bulk sh cubic_v_G [OF assms(1-3)]
      bindE_Inr prod.case cubic_real_space [OF assms(4)]
    using cubic_align [of q] by simp
qed





lemma cubic_shift:
  "axbulkval_of cubic_lattice (0, 0, 0) 0 = Inr 0"
  "shift_to_origin 0 grid pureavg defavg = Inr (pureavg, defavg)"
  by (simp_all add: axbulkval_of_def cubic_lattice_def shift_to_origin_def)




section \<open>Zero charge\<close>

lemma converge_from_value:
  "converge_from f ip tol mc g h = Inr v \<Longrightarrow> \<exists>x. f x = Inr v"
proof (induction f ip tol mc g h rule: converge_from.induct)
  case (1 f ip tol mc g h)
  show ?case
  proof (cases "ip = 0 \<or> mc < h")
    case True
    then show ?thesis using "1.prems" by (simp add: converge_from.simps [of f ip tol mc g h])
  next
    case False
    show ?thesis
    proof (cases "f (real h)")
      case (Inl e)
      then show ?thesis using "1.prems" False
        by (simp add: converge_from.simps [of f ip tol mc g h])
    next
      case (Inr g2)
      show ?thesis
      proof (cases "\<bar>g - g2\<bar> < tol")
        case True
        then have "g2 = v" using "1.prems" False Inr
          by (simp add: converge_from.simps [of f ip tol mc g h])
        then show ?thesis using Inr by blast
      next
        case c: False
        then have "converge_from f ip tol mc g2 (h + ip) = Inr v"
          using "1.prems" False Inr by (simp add: converge_from.simps [of f ip tol mc g h])
        then show ?thesis using "1.IH" [OF False Inr c] by simp
      qed
    qed
  qed
qed

lemma converge_value: "converge f ip tol mc = Inr v \<Longrightarrow> \<exists>x. f x = Inr v"
  unfolding converge_def
  by (cases "f (real ip)") (auto dest: converge_from_value simp del: converge_from.simps)

lemma e_iso_zero_charge: "e_iso num ut qm step 0 encut = 0"
  by (simp add: e_iso_def)

lemma e_per_zero_charge: "e_per ut qm a1 a2 a3 vol 0 encut = Inr v \<Longrightarrow> v = 0"
  by (auto simp: e_per_def Let_def split: if_splits)

lemma py_round_zero: "py_round 0 n = 0"
  by (simp add: py_round_def)

lemma freysoldt_es_zero_charge:
  assumes "freysoldt_perform_es_corr num ut self latt 0 step = Inr es"
  shows "es = 0"
proof -
  obtain r1 r2 r3 where m: "matrix latt = (r1, r2, r3)" by (cases "matrix latt")
  show ?thesis
    using assms unfolding freysoldt_perform_es_corr_def m
    by (auto simp: Let_def bindE_Inr_iff e_iso_zero_charge py_round_zero
        split: if_splits dest!: converge_value e_per_zero_charge)
qed

lemma freysoldt_axis_loop_zero:
  "foldE (freysoldt_axis_step num ut self latt 0 dfc) items (tracker, pl, un) = Inr (tracker', pl', un')
   \<Longrightarrow> \<forall>x \<in> set tracker. x = Fin 0 \<or> x = NaN
   \<Longrightarrow> \<forall>x \<in> set tracker'. x = Fin 0 \<or> x = NaN"
proof (induction items arbitrary: tracker pl un)
  case Nil
  then show ?case by simp
next
  case (Cons item items)
  from Cons.prems(1) obtain acc where
    step: "freysoldt_axis_step num ut self latt 0 dfc item (tracker, pl, un) = Inr acc"
    and rest: "foldE (freysoldt_axis_step num ut self latt 0 dfc) items acc = Inr (tracker', pl', un')"
    by (auto simp: bindE_Inr_iff)
  obtain t2 p2 u2 where acc: "acc = (t2, p2, u2)" by (cases acc)
  obtain C where t2: "t2 = tracker @ [fl_mul (Fin 0) C]"
    using step unfolding acc freysoldt_axis_step_def
    by (auto simp: bindE_Inr_iff split: prod.splits dest!: freysoldt_perform_pot_corr_value)
  have "\<forall>x \<in> set t2. x = Fin 0 \<or> x = NaN"
    unfolding t2 using Cons.prems(2) fl_mul_zero [of C] by auto
  then show ?case using Cons.IH rest acc by blast
qed

text \<open>
  For a defect entry of charge 0, whatever \<^verbatim>\<open>get_correction\<close> of the Freysoldt correction
  returns has the electrostatic energy 0 and leaves \<^verbatim>\<open>potalign\<close> at 0; its
  potential-alignment energy is 0 or not-a-number. Whatever \<^verbatim>\<open>get_correction\<close> of the
  Kumagai correction returns has both energies 0 and leaves \<^verbatim>\<open>potalign\<close> at 0.
\<close>

lemma freysoldt_zero_charge:
  assumes "charge entry = 0"
    and "freysoldt_get_correction num ut self entry = Inr (res, entry')"
  shows "fc_electrostatic res = 0
         \<and> (fc_potential_alignment res = Fin 0 \<or> fc_potential_alignment res = NaN)
         \<and> potalign (parameters entry') = Some (Fin 0)"
  using assms(2) unfolding freysoldt_get_correction_def
  by (clarsimp simp: assms(1) bindE_Inr_iff Let_def dest!: freysoldt_es_zero_charge)
     (metis freysoldt_axis_loop_zero np_mean_zero_nan empty_iff list.set(1))

lemma kumagai_zero_charge:
  assumes "charge entry = 0"
    and "kumagai_get_correction num ut self entry = Inr (res, entry')"
  shows "electrostatic res = 0 \<and> potential_alignment res = 0 \<and>
         potalign (parameters entry') = Some (Fin 0)"
  using assms(2) unfolding kumagai_get_correction_def
  by (clarsimp simp: assms(1) kumagai_es_corr_def bindE_Inr_iff Let_def
        dest!: kumagai_perform_pot_corr_value)

lemma cubic_es_zero:
  "freysoldt_perform_es_corr num simple_utils cubic_freysoldt cubic_lattice 0 step = Inr 0"
  by (simp add: freysoldt_perform_es_corr_def cubic_lattice_def cubic_freysoldt_fields
      simple_utils_def converge_def converge_from.simps e_iso_zero_charge e_per_def
      py_round_zero)

lemma arange3: "arange_g 3 = [1, - 1, 0]"
  by (simp add: arange_g_def np_roll_def upt_rec rotate_def)

lemma odd_v_G:
  assumes "ax < 3"
  shows "freysoldt_v_G simple_utils cubic_freysoldt cubic_lattice (length odd_grid) 0 ax
           = Inr [Fin 0, Fin 0, NaN]"
proof -
  have ax: "ax = 0 \<or> ax = 1 \<or> ax = 2" using assms by auto
  then have r: "vec3_nth (reciprocal_abc cubic_lattice) ax = Inr pi"
    by (auto simp: cubic_lattice_def)
  have len: "length odd_grid = 3" by (simp add: odd_grid_def)
  show ?thesis
    unfolding len
    by (simp add: freysoldt_v_G_def r cubic_freysoldt_fields simple_utils_def arange3
        gaussian_qmodel_def freysoldt_v_G_entry_def fl_scale_inf_def)
qed

lemma odd_real_space:
  assumes "map fst (fft_nonfinite num [Fin 0, Fin 0, NaN]) = [NaN, NaN, NaN]"
    and "NaN \<in> set (map snd (fft_nonfinite num [Fin 0, Fin 0, NaN]))"
  shows "freysoldt_real_space num simple_utils cubic_freysoldt cubic_lattice [Fin 0, Fin 0, NaN]
           = Inr [NaN, NaN, NaN]"
proof -
  let ?v = "fft_nonfinite num [Fin 0, Fin 0, NaN]"
  have f: "np_fft num [Fin 0, Fin 0, NaN] = ?v" by (simp add: np_fft_def)
  have m: "np_max (map snd ?v) = NaN" using assms(2) by (simp add: np_max_def)
  obtain a b c where v: "?v = [a, b, c]" and n: "fst a = NaN" "fst b = NaN" "fst c = NaN"
    using assms(1) by (auto simp: map_eq_Cons_conv)
  have d: "fst (np_cdiv_real x (volume cubic_lattice * ang_to_bohr simple_utils ^ 3)) = NaN"
    if "fst x = NaN" for x
    using that by (simp add: np_cdiv_real_def cubic_scale)
  show ?thesis
    unfolding freysoldt_real_space_def f Let_def m
    by (simp add: v d n)
qed

lemma odd_align:
  "\<exists>pl un. freysoldt_align odd_grid odd_bulk_average odd_defect_average 0 1 [NaN, NaN, NaN]
     = Inr (NaN, NaN, pl, un)"
  by (simp add: freysoldt_align_def odd_grid_def odd_bulk_average_def odd_defect_average_def
      np_sub_def np_sub_fl_def nth_or_raise_def py_int_def py_index_def np_mean_def np_sum_def
      describe_def fl_sub_def Let_def upto.simps)

lemma odd_perform_pot_corr:
  assumes "map fst (fft_nonfinite num [Fin 0, Fin 0, NaN]) = [NaN, NaN, NaN]"
    and "NaN \<in> set (map snd (fft_nonfinite num [Fin 0, Fin 0, NaN]))"
    and "ax < 3"
  shows "\<exists>pl un.
     freysoldt_perform_pot_corr num simple_utils cubic_freysoldt odd_grid odd_bulk_average
       odd_defect_average cubic_lattice 0 (0, 0, 0) ax 1
     = Inr (NaN, NaN, pl, un)"
proof -
  have ax: "ax = 0 \<or> ax = 1 \<or> ax = 2" using assms(3) by auto
  then have bulk: "axbulkval_of cubic_lattice (0, 0, 0) ax = Inr 0"
    by (auto simp: axbulkval_of_def cubic_lattice_def)
  show ?thesis
    unfolding freysoldt_perform_pot_corr_def bulk cubic_shift(2) bindE_Inr prod.case
      odd_v_G [OF assms(3)] odd_real_space [OF assms(1,2)]
    by (rule odd_align)
qed

text \<open>
  Claim C1, on a grid with an odd number of points. There the rolled array \<^verbatim>\<open>g\<close> ends
  with the entry zero, line 243 divides by it, and for the charge 0 the product of the
  infinity with the charge is not-a-number: on three grid points \<^verbatim>\<open>v_G\<close> is 0, 0,
  not-a-number. Every real part of the transform of this array, and the imaginary part
  of its components 1 and 2, is a sum in which the last entry has a non-zero
  coefficient. Whenever the transform has not-a-number in these places, the comparison
  of line 249 is false, nothing is raised, and \<^verbatim>\<open>get_correction\<close> of the Freysoldt
  correction returns, for the entry of the concrete setting with charge 0 on such grids,
  the electrostatic energy 0 and the potential-alignment energy not-a-number, with
  \<^verbatim>\<open>potalign\<close> set to 0.
\<close>

theorem zero_charge_odd_grid_not_a_number:
  assumes "map fst (fft_nonfinite num [Fin 0, Fin 0, NaN]) = [NaN, NaN, NaN]"
    and "NaN \<in> set (map snd (fft_nonfinite num [Fin 0, Fin 0, NaN]))"
  shows "freysoldt_summary
           (freysoldt_get_correction num simple_utils cubic_freysoldt (odd_grid_entry 0))
         = Inr (0, NaN, Some (Fin 0))"
proof -
  obtain p0 u0 where a0:
    "freysoldt_perform_pot_corr num simple_utils cubic_freysoldt odd_grid odd_bulk_average
       odd_defect_average cubic_lattice 0 (0, 0, 0) 0 1 = Inr (NaN, NaN, p0, u0)"
    using odd_perform_pot_corr [OF assms, of 0] by auto
  obtain p1 u1 where a1:
    "freysoldt_perform_pot_corr num simple_utils cubic_freysoldt odd_grid odd_bulk_average
       odd_defect_average cubic_lattice 0 (0, 0, 0) (Suc 0) 1 = Inr (NaN, NaN, p1, u1)"
    using odd_perform_pot_corr [OF assms, of "Suc 0"] by auto
  obtain p2 u2 where a2:
    "freysoldt_perform_pot_corr num simple_utils cubic_freysoldt odd_grid odd_bulk_average
       odd_defect_average cubic_lattice 0 (0, 0, 0) 2 1 = Inr (NaN, NaN, p2, u2)"
    using odd_perform_pot_corr [OF assms, of 2] by auto
  have ax: "freysoldt_axes cubic_freysoldt (odd_grid_entry 0) =
      Inr [(odd_grid, odd_bulk_average, odd_defect_average, 0),
           (odd_grid, odd_bulk_average, odd_defect_average, 1),
           (odd_grid, odd_bulk_average, odd_defect_average, 2)]"
    by (simp add: freysoldt_axes_def cubic_freysoldt_fields odd_grid_entry_def cubic_entry_def
        no_parameters_def lookup_param_def upt_rec)
  show ?thesis
    unfolding freysoldt_get_correction_def freysoldt_summary_def ax
    by (simp add: odd_grid_entry_def cubic_entry_def no_parameters_def lookup_param_def
        cubic_structure_def cubic_lattice_def [symmetric]
        cubic_es_zero freysoldt_axis_step_def a0 a1 a2 np_mean_def np_sum_def)
qed

text \<open>With a transform that is not-a-number in every component.\<close>

theorem zero_charge_odd_grid_not_a_number_witness:
  "freysoldt_summary
     (freysoldt_get_correction simple_numerics simple_utils cubic_freysoldt (odd_grid_entry 0))
   = Inr (0, NaN, Some (Fin 0))"
  by (rule zero_charge_odd_grid_not_a_number) (simp_all add: simple_numerics_def)

section \<open>Dependence on the charge\<close>











section \<open>The delocalization checks and the correction policy\<close>

lemma freysoldt_delocalized_axis_raises:
  "freysoldt_delocalized_axis self defect_entry ax (Map.empty, b) = Inl KeyError"
  by (simp add: freysoldt_delocalized_axis_def lookup_param_def bindE_def Let_def
      split: option.splits sum.splits)

text \<open>
  Claim C5. The planar-average check reports nothing: for every configuration and every
  entry \<^verbatim>\<open>is_freysoldt_delocalized\<close> ends with \<^verbatim>\<open>KeyError\<close>. When the entry holds the
  statistics of axis 0, the tests against the two tolerances are computed and then
  \<^verbatim>\<open>plnr_avg_analyze_meta[ax].update\<close> reads the key 0 of the dictionary that was created
  empty; when it does not, the lookup of the statistics raises.
\<close>

theorem is_freysoldt_delocalized_raises:
  "is_freysoldt_delocalized self defect_entry = Inl KeyError"
  by (simp add: is_freysoldt_delocalized_def freysoldt_delocalized_axis_raises)

text \<open>
  Lines 91 to 104 of \<^verbatim>\<open>process_entry\<close> on their own follow the policy: no charge
  correction beyond the cutoff, else the sum of the two terms of the preferred scheme.
\<close>

lemma charge_correction_policy_skipped:
  assumes "num_hole_vbm (parameters entry) = Some holes"
    and "num_elec_cbm (parameters entry) = Some elecs"
    and "free_chg_cutoff self < holes \<or> free_chg_cutoff self < elecs"
  shows "charge_correction_policy self entry = Inr Map.empty"
  using assms by (auto simp: charge_correction_policy_def lookup_param_def)

lemma charge_correction_policy_freysoldt:
  assumes "num_hole_vbm (parameters entry) = Some holes"
    and "num_elec_cbm (parameters entry) = Some elecs"
    and "\<not> free_chg_cutoff self < holes" and "\<not> free_chg_cutoff self < elecs"
    and "py_in ''freysoldt'' (map lower_char (preferred_cc self))"
    and "freysoldt_meta (parameters entry) = Some fm"
    and "freysoldt_electrostatic fm = Some es"
    and "freysoldt_potential_alignment_correction fm = Some pa"
  shows "charge_correction_policy self entry = Inr [''charge_correction'' \<mapsto> es + pa]"
  using assms by (simp add: charge_correction_policy_def lookup_param_def)

lemma charge_correction_policy_kumagai:
  assumes "num_hole_vbm (parameters entry) = Some holes"
    and "num_elec_cbm (parameters entry) = Some elecs"
    and "\<not> free_chg_cutoff self < holes" and "\<not> free_chg_cutoff self < elecs"
    and "\<not> py_in ''freysoldt'' (map lower_char (preferred_cc self))"
    and "kumagai_meta (parameters entry) = Some km"
    and "kumagai_electrostatic km = Some es"
    and "kumagai_potential_alignment_correction km = Some pa"
  shows "charge_correction_policy self entry = Inr [''charge_correction'' \<mapsto> es + pa]"
  using assms by (simp add: charge_correction_policy_def lookup_param_def)

text \<open>
  Claim C3. No entry is processed: \<^verbatim>\<open>process_entry\<close> first calls
  \<^verbatim>\<open>self.perform_corrections\<close>, a method the class does not have (it defines
  \<^verbatim>\<open>perform_all_corrections\<close>), so for every configuration and every entry it ends with
  \<^verbatim>\<open>AttributeError\<close> and adds no correction. The call after it, \<^verbatim>\<open>delocalization_analysis\<close>,
  ends with an exception for every entry as well.
\<close>

theorem process_entry_raises:
  "process_entry self defect_entry = Inl AttributeError
   \<and> (\<exists>e. delocalization_analysis self defect_entry = Inl e)"
  by (simp add: process_entry_def getattr_method_def DefectCompatibility_methods_def
      delocalization_analysis_def bindE_def split: sum.splits)

text \<open>
  Each check stores a dictionary with its own key alone under \<^verbatim>\<open>delocalization_meta\<close>:
  after a check has returned, no other check is recorded.
\<close>

lemma is_kumagai_delocalized_meta:
  assumes "is_kumagai_delocalized self entry = Inr entry'"
  shows "recorded_checks entry' names = filter (\<lambda>name. name = ''atomic_site'') names"
  using assms
  by (auto simp: is_kumagai_delocalized_def bindE_Inr_iff Let_def recorded_checks_def
      split: if_splits intro!: filter_cong)

lemma is_final_relaxed_structure_delocalized_meta:
  assumes "is_final_relaxed_structure_delocalized self entry = Inr entry'"
  shows "recorded_checks entry' names = filter (\<lambda>name. name = ''defectsite_relax'') names"
  using assms
  by (auto simp: is_final_relaxed_structure_delocalized_def bindE_Inr_iff Let_def
      recorded_checks_def split: if_splits option.splits intro!: filter_cong)

text \<open>
  Claim C9, evaluated. On the relaxed entry of the concrete setting, with the default
  tolerances, the atomic-site check returns and records \<^verbatim>\<open>atomic_site\<close>; the relaxation
  check that runs next returns, and of the four checks only \<^verbatim>\<open>defectsite_relax\<close> is
  recorded then: the results of the atomic-site check and of the structure-relaxation
  check are gone.
\<close>

theorem delocalization_meta_keeps_last_check_only:
  "\<exists>e1 e2.
     is_kumagai_delocalized DefectCompatibility_default relaxed_entry = Inr e1
     \<and> recorded_checks e1 delocalization_checks = [''atomic_site'']
     \<and> is_final_relaxed_structure_delocalized DefectCompatibility_default e1 = Inr e2
     \<and> recorded_checks e2 delocalization_checks = [''defectsite_relax'']"
  by (simp add: is_kumagai_delocalized_def relaxed_entry_def cubic_entry_def
      cubic_kumagai_meta_def DefectCompatibility_default_def lookup_param_def Let_def
      recorded_checks_def delocalization_checks_def no_parameters_def
      is_final_relaxed_structure_delocalized_def cubic_structure_def nth_or_raise_def
      relax_distdata_def relax_outside_def upt_rec)

end
